theory Spec2Isabelle
  imports Main "HOL-Library.Sublist" "HOL-Library.Char_ord" "HOL-Library.List_Lexorder"
begin

section \<open>JavaScript values and strings\<close>

text \<open>
  The values that travel through the query builders: request-body and query-string
  members, and the parameters bound to a statement. \<open>JUndef\<close> is \<open>undefined\<close>. The code
  does no arithmetic on its values: it tests them for truthiness, compares them with the
  strings and booleans of a fixed list, and converts them to strings. A number is therefore
  given by its string conversion \<open>String(n)\<close> (\<open>50000\<close>, \<open>0.3\<close>, \<open>1e+21\<close>, \<open>NaN\<close>; both
  zeros convert to \<open>0\<close>), and so is an object or a function (\<open>[object Object]\<close>, the source
  text of a function).
\<close>

datatype jsval = JUndef | JNull | JBool bool | JNum string | JStr string | JObject string

text \<open>
  An object is the list of its own enumerable properties in the order in which
  \<open>Object.keys\<close> enumerates them; the keys of an object are distinct.
\<close>

type_synonym jsobj = "(string \<times> jsval) list"

definition Object_keys :: "jsobj \<Rightarrow> string list" where
  "Object_keys obj = map fst obj"

definition Object_values :: "jsobj \<Rightarrow> jsval list" where
  "Object_values obj = map snd obj"

text \<open>Property read \<open>obj.k\<close>: \<open>undefined\<close> when the object has no such property.\<close>

definition get_prop :: "jsobj \<Rightarrow> string \<Rightarrow> jsval" where
  "get_prop obj k = (case map_of obj k of None \<Rightarrow> JUndef | Some v \<Rightarrow> v)"

text \<open>Assignment \<open>obj.k = v\<close> to a property the object already has: its place is kept.\<close>

definition assign :: "string \<Rightarrow> jsval \<Rightarrow> jsobj \<Rightarrow> jsobj" where
  "assign k v obj = map (\<lambda>(k', x). if k' = k then (k', v) else (k', x)) obj"

fun truthy :: "jsval \<Rightarrow> bool" where
  "truthy JUndef = False"
| "truthy JNull = False"
| "truthy (JBool b) = b"
| "truthy (JNum n) = (n \<noteq> ''0'' \<and> n \<noteq> ''NaN'')"
| "truthy (JStr s) = (s \<noteq> [])"
| "truthy (JObject t) = True"

definition digit_char :: "nat \<Rightarrow> char" where
  "digit_char d = ''0123456789'' ! d"

text \<open>
  The string conversion of an array index plus one, or of an array length plus one: a
  natural number below \<open>2^32\<close>, which converts to its plain decimal digits.
\<close>

fun show_nat :: "nat \<Rightarrow> string" where
  "show_nat n = (if n < 10 then [digit_char n] else show_nat (n div 10) @ [digit_char (n mod 10)])"

declare show_nat.simps [simp del]

text \<open>String conversion, as a template literal \<open>`${v}`\<close> performs it.\<close>

fun toString :: "jsval \<Rightarrow> string" where
  "toString JUndef = ''undefined''"
| "toString JNull = ''null''"
| "toString (JBool b) = (if b then ''true'' else ''false'')"
| "toString (JNum n) = n"
| "toString (JStr s) = s"
| "toString (JObject t) = t"

text \<open>\<open>Array.prototype.join\<close> on an array of strings.\<close>

fun join :: "string \<Rightarrow> string list \<Rightarrow> string" where
  "join sep [] = []"
| "join sep [x] = x"
| "join sep (x # y # ys) = x @ sep @ join sep (y # ys)"

definition dquote :: char where
  "dquote = CHR 0x22"

definition nl :: string where
  "nl = [CHR 0x0A]"

definition spaces :: "nat \<Rightarrow> string" where
  "spaces n = replicate n CHR '' ''"

section \<open>Errors\<close>

text \<open>
  The error classes the code throws, with their messages. \<open>TypeError\<close> is the
  built-in error of \<open>Object.keys(null)\<close>; \<open>DbError\<close> is a rejection of the
  query executor.
\<close>

datatype error =
    BadRequestError string
  | NotFoundError string
  | TypeError
  | DbError string

section \<open>helpers/sql.js\<close>

record partial_update =
  setCols :: string
  values_of :: "jsval list"

text \<open>
  The translation table is given by its lookup \<open>jsToSql[colName]\<close>, \<open>None\<close> when the
  lookup is \<open>undefined\<close>. The lookup reads the properties of the table and, for a key it
  does not have, those it inherits. \<open>jsToSql[colName] || colName\<close> falls back to the key
  itself when the lookup is falsy.
\<close>

text \<open>
  What an object literal inherits from \<open>Object.prototype\<close>: the built-in methods, each
  with the source text that its string conversion gives, and the accessor \<open>__proto__\<close>,
  which reads as the prototype object.
\<close>

definition native_function :: "string \<Rightarrow> jsval" where
  "native_function name = JObject (''function '' @ name @ ''() { [native code] }'')"

definition Object_prototype :: "string \<rightharpoonup> jsval" where
  "Object_prototype = map_of
     [(''constructor'', native_function ''Object''),
      (''__defineGetter__'', native_function ''__defineGetter__''),
      (''__defineSetter__'', native_function ''__defineSetter__''),
      (''hasOwnProperty'', native_function ''hasOwnProperty''),
      (''__lookupGetter__'', native_function ''__lookupGetter__''),
      (''__lookupSetter__'', native_function ''__lookupSetter__''),
      (''isPrototypeOf'', native_function ''isPrototypeOf''),
      (''propertyIsEnumerable'', native_function ''propertyIsEnumerable''),
      (''toString'', native_function ''toString''),
      (''valueOf'', native_function ''valueOf''),
      (''toLocaleString'', native_function ''toLocaleString''),
      (''__proto__'', JObject ''[object Object]'')]"

text \<open>The lookup of an object literal with the given own properties.\<close>

definition object_literal :: "(string \<times> jsval) list \<Rightarrow> (string \<rightharpoonup> jsval)" where
  "object_literal own = Object_prototype ++ map_of own"

definition column_name :: "(string \<rightharpoonup> jsval) \<Rightarrow> string \<Rightarrow> string" where
  "column_name jsToSql colName =
     (case jsToSql colName of
        None \<Rightarrow> colName
      | Some v \<Rightarrow> if truthy v then toString v else colName)"

text \<open>One element of \<open>cols\<close>: \<open>`"${jsToSql[colName] || colName}"=$${idx + 1}`\<close>.\<close>

definition col_fragment :: "(string \<rightharpoonup> jsval) \<Rightarrow> nat \<times> string \<Rightarrow> string" where
  "col_fragment jsToSql p =
     dquote # column_name jsToSql (snd p) @ dquote # ''=$'' @ show_nat (fst p + 1)"

definition sqlForPartialUpdate :: "jsobj \<Rightarrow> (string \<rightharpoonup> jsval) \<Rightarrow> error + partial_update" where
  "sqlForPartialUpdate dataToUpdate jsToSql =
     (let keys = Object_keys dataToUpdate in
      if length keys = 0 then Inl (BadRequestError ''No data'')
      else
        let cols = map (col_fragment jsToSql) (enumerate 0 keys) in
        Inr \<lparr> setCols = join '', '' cols, values_of = Object_values dataToUpdate \<rparr>)"

section \<open>Reading the placeholders of a statement\<close>

text \<open>
  A positional parameter of a statement is a dollar sign followed by digits, outside a
  double-quoted identifier; inside such an identifier every character but the double quote
  belongs to the name. \<open>placeholders\<close> lists the ordinals of the parameters of a text from
  left to right. The texts of this program hold no string literal and no comment, which the
  scanner therefore does not read.
\<close>

datatype scan_state = Outside | Quoted | Dollar | Digits nat

definition is_digit :: "char \<Rightarrow> bool" where
  "is_digit c = (c \<in> set ''0123456789'')"

definition digit_val :: "char \<Rightarrow> nat" where
  "digit_val c = of_char c - 48"

definition outside_step :: "char \<Rightarrow> scan_state" where
  "outside_step c = (if c = dquote then Quoted else if c = CHR ''$'' then Dollar else Outside)"

fun placeholders_from :: "scan_state \<Rightarrow> string \<Rightarrow> nat list" where
  "placeholders_from (Digits n) [] = [n]"
| "placeholders_from st [] = []"
| "placeholders_from Quoted (c # cs) =
     placeholders_from (if c = dquote then Outside else Quoted) cs"
| "placeholders_from Outside (c # cs) = placeholders_from (outside_step c) cs"
| "placeholders_from Dollar (c # cs) =
     (if is_digit c then placeholders_from (Digits (digit_val c)) cs
      else placeholders_from (outside_step c) cs)"
| "placeholders_from (Digits n) (c # cs) =
     (if is_digit c then placeholders_from (Digits (10 * n + digit_val c)) cs
      else n # placeholders_from (outside_step c) cs)"

definition placeholders :: "string \<Rightarrow> nat list" where
  "placeholders s = placeholders_from Outside s"

text \<open>The number that a run of digits denotes, continuing from \<open>n\<close>.\<close>

definition digits_value :: "nat \<Rightarrow> string \<Rightarrow> nat" where
  "digits_value n ds = foldl (\<lambda>a c. 10 * a + digit_val c) n ds"

section \<open>The query executor\<close>

text \<open>
  \<open>db.query(text, values)\<close> is an external collaborator: an executor takes the state of
  the store and a statement (its text and its bound values, an absent value array being the
  empty one) and returns the rows or a rejection, with the new state. A connection records
  the statements executed on it, in order.
\<close>

type_synonym row = jsobj

type_synonym statement = "string \<times> jsval list"

type_synonym 'db executor = "'db \<Rightarrow> statement \<Rightarrow> (error + row list) \<times> 'db"

record 'db conn =
  store :: 'db
  executed :: "statement list"

definition db_query ::
  "'db executor \<Rightarrow> statement \<Rightarrow> 'db conn \<Rightarrow> (error + row list) \<times> 'db conn" where
  "db_query exec st c =
     (case exec (store c) st of
        (res, s') \<Rightarrow> (res, \<lparr> store = s', executed = executed c @ [st] \<rparr>))"

text \<open>\<open>result.rows[0]\<close>: \<open>None\<close> is \<open>undefined\<close>, for an empty result.\<close>

definition first_row :: "row list \<Rightarrow> row option" where
  "first_row rows = (case rows of [] \<Rightarrow> None | r # _ \<Rightarrow> Some r)"

text \<open>
  The message of the error for unrecognised query-string keys; the template literal spans
  two source lines, and an array in a template literal is joined with commas.
\<close>

definition invalid_params_message :: "string list \<Rightarrow> string" where
  "invalid_params_message invalidKeys =
     ''These parameters in your query '' @ nl @ spaces 55 @
     ''string are invalid: ['' @ join '','' invalidKeys @ '']''"

text \<open>
  \<open>keys.map((key, idx) => f(key, idx)).join(" AND ")\<close>: an element that is
  \<open>undefined\<close> is joined as the empty string.
\<close>

definition join_clauses :: "string option list \<Rightarrow> string" where
  "join_clauses clauses = join '' AND '' (map (\<lambda>cl. case cl of None \<Rightarrow> [] | Some t \<Rightarrow> t) clauses)"

text \<open>The wrapping \<open>`%${v}%`\<close> of a substring filter.\<close>

definition wrap_like :: "jsval \<Rightarrow> jsval" where
  "wrap_like v = JStr (''%'' @ toString v @ ''%'')"

section \<open>The job model (class Job, exported as the module)\<close>

text \<open>
  The class with \<open>create\<close>, \<open>findAll\<close>, \<open>get\<close>, \<open>update\<close> and \<open>remove\<close>; the operations
  modelled are those the properties below are about.
\<close>

definition Job_validParams :: "string list" where
  "Job_validParams = [''title'', ''minSalary'', ''hasEquity'']"

definition Job_makeKeyStatementsForWhereClauses :: "jsobj \<Rightarrow> string \<Rightarrow> nat \<Rightarrow> string option" where
  "Job_makeKeyStatementsForWhereClauses query key idx =
     (let equityAmt =
        (if get_prop query ''hasEquity'' = JStr ''false'' \<or> \<not> truthy (get_prop query ''hasEquity'')
         then ''='' else ''>'')
      in
      if key = ''title'' then Some ('' '' @ key @ '' ILIKE $'' @ show_nat (idx + 1))
      else if key = ''minSalary'' then Some (''salary >= $'' @ show_nat (idx + 1))
      else if key = ''hasEquity'' then Some (''equity '' @ equityAmt @ '' $'' @ show_nat (idx + 1))
      else None)"

definition Job_checkForBadQueries :: "string list \<Rightarrow> error + unit" where
  "Job_checkForBadQueries keys =
     (let invalidKeys = filter (\<lambda>k. k \<notin> set Job_validParams) keys in
      if length invalidKeys \<noteq> 0 then Inl (BadRequestError (invalid_params_message invalidKeys))
      else Inr ())"

definition Job_findAll_text :: "string \<Rightarrow> string" where
  "Job_findAll_text whereClause =
     ''SELECT title, salary, equity, company_handle AS companyHandle'' @ nl @
     spaces 7 @ ''FROM jobs'' @ nl @
     spaces 7 @ whereClause @ nl @
     spaces 7 @ ''ORDER BY title''"

text \<open>The values that the filter of \<open>findAll\<close> drops: \<open>[true, false, 'true', 'false']\<close>.\<close>

definition boolean_like :: "jsval list" where
  "boolean_like = [JBool True, JBool False, JStr ''true'', JStr ''false'']"

text \<open>
  The body of \<open>findAll\<close> up to the call of the executor: the check of the keys, the
  where clause, the in-place wrapping of \<open>query.title\<close>, and the value array.
\<close>

definition Job_findAll_statement :: "jsobj \<Rightarrow> error + statement" where
  "Job_findAll_statement query =
     (let keys = Object_keys query in
      case Job_checkForBadQueries keys of
        Inl e \<Rightarrow> Inl e
      | Inr _ \<Rightarrow>
         (let queryKeys = join_clauses
                (map (\<lambda>(idx, key). Job_makeKeyStatementsForWhereClauses query key idx)
                     (enumerate 0 keys));
              whereClause = (if length queryKeys \<noteq> 0 then ''WHERE '' @ queryKeys else []);
              query' = (if truthy (get_prop query ''title'')
                        then assign ''title'' (wrap_like (get_prop query ''title'')) query
                        else query);
              vals = filter (\<lambda>v. v \<notin> set boolean_like) (Object_values query');
              vals' = (if get_prop query' ''hasEquity'' \<noteq> JUndef then vals @ [JStr ''0''] else vals)
          in Inr (Job_findAll_text whereClause, vals')))"

text \<open>\<open>findAll(query = {})\<close>: an omitted argument is the empty object.\<close>

definition Job_findAll ::
  "'db executor \<Rightarrow> jsobj option \<Rightarrow> 'db conn \<Rightarrow> (error + row list) \<times> 'db conn" where
  "Job_findAll exec arg c =
     (let query = (case arg of None \<Rightarrow> [] | Some q \<Rightarrow> q) in
      case Job_findAll_statement query of
        Inl e \<Rightarrow> (Inl e, c)
      | Inr st \<Rightarrow> db_query exec st c)"

definition Job_create_text :: string where
  "Job_create_text =
     ''INSERT INTO jobs'' @ nl @
     spaces 9 @ ''(title, salary, equity, company_handle)'' @ nl @
     spaces 9 @ ''VALUES'' @ nl @
     spaces 9 @ ''($1, $2, $3, $4)'' @ nl @
     spaces 9 @ ''RETURNING title, salary, equity, company_handle AS companyHandle''"

definition Job_create ::
  "'db executor \<Rightarrow> jsobj \<Rightarrow> 'db conn \<Rightarrow> (error + row option) \<times> 'db conn" where
  "Job_create exec data c =
     (case db_query exec
             (Job_create_text,
              [get_prop data ''title'', get_prop data ''salary'', get_prop data ''equity'',
               get_prop data ''companyHandle'']) c of
        (Inl e, c') \<Rightarrow> (Inl e, c')
      | (Inr rows, c') \<Rightarrow> (Inr (first_row rows), c'))"

definition Job_jsToSql :: "string \<rightharpoonup> jsval" where
  "Job_jsToSql = object_literal [(''companyHandle'', JStr ''company_handle'')]"

definition Job_update_text :: "string \<Rightarrow> string \<Rightarrow> string" where
  "Job_update_text setClause handleVarIdx =
     ''UPDATE jobs '' @ nl @
     spaces 22 @ ''SET '' @ setClause @ '' '' @ nl @
     spaces 22 @ ''WHERE title = '' @ handleVarIdx @ '' '' @ nl @
     spaces 22 @ ''RETURNING title, '' @ nl @
     spaces 32 @ ''salary, '' @ nl @
     spaces 32 @ ''equity, '' @ nl @
     spaces 32 @ ''company_handle AS companyHandle''"

definition Job_update_statement :: "jsval \<Rightarrow> jsobj \<Rightarrow> error + statement" where
  "Job_update_statement title data =
     (case sqlForPartialUpdate data Job_jsToSql of
        Inl e \<Rightarrow> Inl e
      | Inr r \<Rightarrow>
          (let handleVarIdx = ''$'' @ show_nat (length (values_of r) + 1) in
           Inr (Job_update_text (setCols r) handleVarIdx, values_of r @ [title])))"

definition Job_update ::
  "'db executor \<Rightarrow> jsval \<Rightarrow> jsobj \<Rightarrow> 'db conn \<Rightarrow> (error + row) \<times> 'db conn" where
  "Job_update exec title data c =
     (case Job_update_statement title data of
        Inl e \<Rightarrow> (Inl e, c)
      | Inr st \<Rightarrow>
          (case db_query exec st c of
             (Inl e, c') \<Rightarrow> (Inl e, c')
           | (Inr rows, c') \<Rightarrow>
               (case first_row rows of
                  None \<Rightarrow> (Inl (NotFoundError (''No company: '' @ toString title)), c')
                | Some job \<Rightarrow> (Inr job, c'))))"

section \<open>models/job.js (class Job with create and findAll only, no export)\<close>

text \<open>
  A second copy of the class, with the helper and \<open>findAll\<close> in another form: the clause
  of \<open>hasEquity\<close> is always an equality and the values are bound as supplied.
\<close>

definition models_job_makeKeyStatementsForWhereClauses :: "string \<Rightarrow> nat \<Rightarrow> string option" where
  "models_job_makeKeyStatementsForWhereClauses key idx =
     (if key = ''title'' then Some ('' '' @ key @ '' ILIKE $'' @ show_nat (idx + 1))
      else if key = ''minSalary'' then Some (''salary >= $'' @ show_nat (idx + 1))
      else if key = ''hasEquity'' then Some (''equity = $'' @ show_nat (idx + 1))
      else None)"

definition models_job_checkForBadQueries :: "jsobj \<Rightarrow> string list \<Rightarrow> error + unit" where
  "models_job_checkForBadQueries query keys =
     (let invalidKeys = filter (\<lambda>k. k \<notin> set [''title'', ''minSalary'', ''hasEquity'']) keys in
      if length invalidKeys \<noteq> 0 then Inl (BadRequestError (invalid_params_message invalidKeys))
      else Inr ())"

definition models_job_findAll_statement :: "jsobj \<Rightarrow> error + statement" where
  "models_job_findAll_statement query =
     (let keys = Object_keys query in
      case models_job_checkForBadQueries query keys of
        Inl e \<Rightarrow> Inl e
      | Inr _ \<Rightarrow>
         (let queryKeys = join_clauses
                (map (\<lambda>(idx, key). models_job_makeKeyStatementsForWhereClauses key idx)
                     (enumerate 0 keys));
              vals = Object_values query;
              whereClause = (if length queryKeys \<noteq> 0 then ''WHERE '' @ queryKeys else [])
          in Inr (Job_findAll_text whereClause, vals)))"

definition models_job_findAll ::
  "'db executor \<Rightarrow> jsobj option \<Rightarrow> 'db conn \<Rightarrow> (error + row list) \<times> 'db conn" where
  "models_job_findAll exec arg c =
     (let query = (case arg of None \<Rightarrow> [] | Some q \<Rightarrow> q) in
      case models_job_findAll_statement query of
        Inl e \<Rightarrow> (Inl e, c)
      | Inr st \<Rightarrow> db_query exec st c)"

section \<open>The company model (class Company)\<close>

definition Company_validParams :: "string list" where
  "Company_validParams = [''name'', ''minEmployees'', ''maxEmployees'']"

text \<open>The call \<open>console.log("hello!")\<close> of the helper writes to the console only.\<close>

definition Company_makeKeyStatementsForWhereClauses :: "string \<Rightarrow> nat \<Rightarrow> string option" where
  "Company_makeKeyStatementsForWhereClauses key idx =
     (if key = ''name'' then Some ('' '' @ key @ '' ILIKE $'' @ show_nat (idx + 1))
      else if key = ''minEmployees'' then Some (''num_employees >= $'' @ show_nat (idx + 1))
      else if key = ''maxEmployees'' then Some (''num_employees <= $'' @ show_nat (idx + 1))
      else None)"

definition Company_duplicateCheck_text :: string where
  "Company_duplicateCheck_text =
     ''SELECT handle'' @ nl @
     spaces 11 @ ''FROM companies'' @ nl @
     spaces 11 @ ''WHERE handle = $1''"

definition Company_create_text :: string where
  \<open>Company_create_text =
     ''INSERT INTO companies'' @ nl @
     spaces 11 @ ''(handle, name, description, num_employees, logo_url)'' @ nl @
     spaces 11 @ ''VALUES ($1, $2, $3, $4, $5)'' @ nl @
     spaces 11 @ ''RETURNING handle, name, description, num_employees AS "numEmployees", logo_url AS "logoUrl"''\<close>

definition Company_create ::
  "'db executor \<Rightarrow> jsobj \<Rightarrow> 'db conn \<Rightarrow> (error + row option) \<times> 'db conn" where
  "Company_create exec data c =
     (let handle = get_prop data ''handle'' in
      case db_query exec (Company_duplicateCheck_text, [handle]) c of
        (Inl e, c1) \<Rightarrow> (Inl e, c1)
      | (Inr duplicateCheck, c1) \<Rightarrow>
          (case first_row duplicateCheck of
             Some _ \<Rightarrow> (Inl (BadRequestError (''Duplicate company: '' @ toString handle)), c1)
           | None \<Rightarrow>
               (case db_query exec
                       (Company_create_text,
                        [handle, get_prop data ''name'', get_prop data ''description'',
                         get_prop data ''numEmployees'', get_prop data ''logoUrl'']) c1 of
                  (Inl e, c2) \<Rightarrow> (Inl e, c2)
                | (Inr rows, c2) \<Rightarrow> (Inr (first_row rows), c2))))"

text \<open>
  The parameter of \<open>findAll(query = null)\<close>: \<open>null\<close> (the default, for an omitted
  argument) or an object. \<open>Object.keys(null)\<close> throws a TypeError.
\<close>

datatype query_arg = Null | Obj jsobj

fun keys_of :: "query_arg \<Rightarrow> error + string list" where
  "keys_of Null = Inl TypeError"
| "keys_of (Obj query) = Inr (Object_keys query)"

definition Company_select_columns :: string where
  \<open>Company_select_columns =
     ''SELECT handle,'' @ nl @
     spaces 16 @ ''name,'' @ nl @
     spaces 16 @ ''description,'' @ nl @
     spaces 16 @ ''num_employees AS "numEmployees",'' @ nl @
     spaces 16 @ ''logo_url AS "logoUrl"'' @ nl @
     spaces 9 @ ''FROM companies'' @ nl\<close>

definition Company_findAll_text_unfiltered :: string where
  "Company_findAll_text_unfiltered = Company_select_columns @ spaces 9 @ ''ORDER BY name''"

definition Company_findAll_text :: "string \<Rightarrow> string" where
  "Company_findAll_text queryKeys =
     Company_select_columns @
     spaces 9 @ ''WHERE '' @ queryKeys @ nl @
     spaces 9 @ ''ORDER BY name''"

definition Company_findAll_statement :: "query_arg \<Rightarrow> error + statement" where
  "Company_findAll_statement query =
     (case keys_of query of
        Inl e \<Rightarrow> Inl e
      | Inr keys \<Rightarrow>
         (let invalidKeys = filter (\<lambda>k. k \<notin> set Company_validParams) keys in
          if length invalidKeys \<noteq> 0 then Inl (BadRequestError (invalid_params_message invalidKeys))
          else
            (case query of
               Null \<Rightarrow> Inr (Company_findAll_text_unfiltered, [])
             | Obj q \<Rightarrow>
                (let queryKeys = join_clauses
                       (map (\<lambda>(idx, key). Company_makeKeyStatementsForWhereClauses key idx)
                            (enumerate 0 keys));
                     q' = (if truthy (get_prop q ''name'')
                           then assign ''name'' (wrap_like (get_prop q ''name'')) q
                           else q);
                     vals = Object_values q'
                 in Inr (Company_findAll_text queryKeys, vals)))))"

definition Company_findAll ::
  "'db executor \<Rightarrow> jsobj option \<Rightarrow> 'db conn \<Rightarrow> (error + row list) \<times> 'db conn" where
  "Company_findAll exec arg c =
     (let query = (case arg of None \<Rightarrow> Null | Some q \<Rightarrow> Obj q) in
      case Company_findAll_statement query of
        Inl e \<Rightarrow> (Inl e, c)
      | Inr st \<Rightarrow> db_query exec st c)"

definition Company_jsToSql :: "string \<rightharpoonup> jsval" where
  "Company_jsToSql =
     object_literal [(''numEmployees'', JStr ''num_employees''), (''logoUrl'', JStr ''logo_url'')]"

definition Company_update_text :: "string \<Rightarrow> string \<Rightarrow> string" where
  \<open>Company_update_text setClause handleVarIdx =
     ''UPDATE companies '' @ nl @
     spaces 22 @ ''SET '' @ setClause @ '' '' @ nl @
     spaces 22 @ ''WHERE handle = '' @ handleVarIdx @ '' '' @ nl @
     spaces 22 @ ''RETURNING handle, '' @ nl @
     spaces 32 @ ''name, '' @ nl @
     spaces 32 @ ''description, '' @ nl @
     spaces 32 @ ''num_employees AS "numEmployees", '' @ nl @
     spaces 32 @ ''logo_url AS "logoUrl"''\<close>

definition Company_update_statement :: "jsval \<Rightarrow> jsobj \<Rightarrow> error + statement" where
  "Company_update_statement handle data =
     (case sqlForPartialUpdate data Company_jsToSql of
        Inl e \<Rightarrow> Inl e
      | Inr r \<Rightarrow>
          (let handleVarIdx = ''$'' @ show_nat (length (values_of r) + 1) in
           Inr (Company_update_text (setCols r) handleVarIdx, values_of r @ [handle])))"

definition Company_update ::
  "'db executor \<Rightarrow> jsval \<Rightarrow> jsobj \<Rightarrow> 'db conn \<Rightarrow> (error + row) \<times> 'db conn" where
  "Company_update exec handle data c =
     (case Company_update_statement handle data of
        Inl e \<Rightarrow> (Inl e, c)
      | Inr st \<Rightarrow>
          (case db_query exec st c of
             (Inl e, c') \<Rightarrow> (Inl e, c')
           | (Inr rows, c') \<Rightarrow>
               (case first_row rows of
                  None \<Rightarrow> (Inl (NotFoundError (''No company: '' @ toString handle)), c')
                | Some company \<Rightarrow> (Inr company, c'))))"

text \<open>
  Rows in ascending order of a key, for the order \<open>le\<close> in which the store compares the
  values of that key.
\<close>

definition ordered_by :: "(jsval \<Rightarrow> jsval \<Rightarrow> bool) \<Rightarrow> string \<Rightarrow> row list \<Rightarrow> bool" where
  "ordered_by le key rows = sorted_wrt (\<lambda>a b. le (get_prop a key) (get_prop b key)) rows"

text \<open>
  The value that \<open>findAll\<close> holds for a property after the in-place wrapping of the
  substring filter \<open>likeKey\<close>: wrapped when the value of that filter is truthy, as it was
  otherwise.
\<close>

definition bound_value :: "string \<Rightarrow> string \<times> jsval \<Rightarrow> jsval" where
  "bound_value likeKey p = (if fst p = likeKey \<and> truthy (snd p) then wrap_like (snd p) else snd p)"

section \<open>Properties of helpers/sql.js\<close>

subsection \<open>Decimal numerals and the scanner\<close>

lemma digit_char_is_digit: "d < 10 \<Longrightarrow> is_digit (digit_char d)"
  unfolding is_digit_def digit_char_def
  by (simp add: less_Suc_eq numeral_nat) (auto simp: nth_Cons')

lemma digit_val_digit_char: "d < 10 \<Longrightarrow> digit_val (digit_char d) = d"
  unfolding digit_val_def digit_char_def
  by (auto simp: less_Suc_eq numeral_nat)

lemma placeholders_from_Digits:
  "\<forall>c\<in>set ds. is_digit c \<Longrightarrow>
   placeholders_from (Digits n) (ds @ rest) = placeholders_from (Digits (digits_value n ds)) rest"
  by (induction ds arbitrary: n) (auto simp: digits_value_def)

lemma show_nat_digits: "c \<in> set (show_nat n) \<Longrightarrow> is_digit c"
proof (induction n rule: show_nat.induct)
  case (1 n)
  show ?case
  proof (cases "n < 10")
    case True
    with "1.prems" show ?thesis
      by (simp add: show_nat.simps [of n] digit_char_is_digit)
  next
    case False
    with "1.prems" "1.IH" show ?thesis
      by (auto simp: show_nat.simps [of n] digit_char_is_digit)
  qed
qed

lemma show_nat_value: "digits_value 0 (show_nat n) = n"
proof (induction n rule: show_nat.induct)
  case (1 n)
  show ?case
  proof (cases "n < 10")
    case True
    then show ?thesis
      by (simp add: show_nat.simps [of n] digits_value_def digit_val_digit_char)
  next
    case False
    with "1.IH" show ?thesis
      by (simp add: show_nat.simps [of n] digits_value_def digit_val_digit_char)
  qed
qed

lemma show_nat_not_Nil: "show_nat n \<noteq> []"
  by (simp add: show_nat.simps [of n])

lemma placeholders_from_Dollar_show_nat:
  "placeholders_from Dollar (show_nat k @ rest) = placeholders_from (Digits k) rest"
proof -
  obtain d ds where sn: "show_nat k = d # ds"
    using show_nat_not_Nil [of k] by (cases "show_nat k") auto
  have dig: "\<forall>c\<in>set (d # ds). is_digit c"
    using show_nat_digits [of _ k] sn by metis
  have val: "digits_value (digit_val d) ds = k"
    using show_nat_value [of k] sn by (simp add: digits_value_def)
  have "placeholders_from Dollar (show_nat k @ rest) = placeholders_from (Digits (digit_val d)) (ds @ rest)"
    using sn dig by simp
  also have "\<dots> = placeholders_from (Digits (digits_value (digit_val d) ds)) rest"
    using dig by (intro placeholders_from_Digits) simp
  finally show ?thesis using val by simp
qed

lemma placeholders_from_Quoted:
  "dquote \<notin> set col \<Longrightarrow>
   placeholders_from Quoted (col @ dquote # rest) = placeholders_from Outside rest"
  by (induction col) auto

lemma placeholders_from_col_fragment:
  assumes "dquote \<notin> set (column_name jsToSql k)"
  shows "placeholders_from Outside (col_fragment jsToSql (i, k) @ rest)
         = placeholders_from (Digits (i + 1)) rest"
proof -
  have "placeholders_from Outside (col_fragment jsToSql (i, k) @ rest)
        = placeholders_from Quoted (column_name jsToSql k @ dquote # (''=$'' @ show_nat (i + 1) @ rest))"
    by (simp add: col_fragment_def outside_step_def)
  also have "\<dots> = placeholders_from Outside (''=$'' @ show_nat (i + 1) @ rest)"
    using assms by (rule placeholders_from_Quoted)
  also have "\<dots> = placeholders_from Dollar (show_nat (i + 1) @ rest)"
    by (simp add: outside_step_def dquote_def)
  finally show ?thesis
    by (simp only: placeholders_from_Dollar_show_nat)
qed

lemma placeholders_from_join_cols:
  "\<forall>k\<in>set keys. dquote \<notin> set (column_name jsToSql k) \<Longrightarrow>
   placeholders_from Outside (join '', '' (map (col_fragment jsToSql) (enumerate n keys)))
   = [n + 1 ..< n + 1 + length keys]"
proof (induction keys arbitrary: n)
  case Nil
  show ?case by simp
next
  case (Cons k ks)
  show ?case
  proof (cases ks)
    case Nil
    with Cons.prems show ?thesis
      using placeholders_from_col_fragment [of jsToSql k n "[]"] by simp
  next
    case (Cons k' ks')
    have "placeholders_from Outside (join '', '' (map (col_fragment jsToSql) (enumerate n (k # ks))))
          = placeholders_from Outside (col_fragment jsToSql (n, k) @ '', '' @
              join '', '' (map (col_fragment jsToSql) (enumerate (Suc n) ks)))"
      using Cons by simp
    also have "\<dots> = placeholders_from (Digits (n + 1)) ('', '' @
              join '', '' (map (col_fragment jsToSql) (enumerate (Suc n) ks)))"
      using Cons.prems by (intro placeholders_from_col_fragment) simp
    also have "\<dots> = (n + 1) # placeholders_from Outside
              (join '', '' (map (col_fragment jsToSql) (enumerate (Suc n) ks)))"
      by (simp add: is_digit_def outside_step_def dquote_def)
    also have "\<dots> = (n + 1) # [Suc n + 1 ..< Suc n + 1 + length ks]"
      using Cons.IH [of "Suc n"] Cons.prems by simp
    also have "\<dots> = [n + 1 ..< n + 1 + length (k # ks)]"
    proof -
      have "[n + 1 ..< n + 1 + length (k # ks)] = (n + 1) # [Suc (n + 1) ..< n + 1 + length (k # ks)]"
        by (rule upt_conv_Cons) simp
      then show ?thesis by simp
    qed
    finally show ?thesis .
  qed
qed

lemma enumerate_map_nth:
  "map f (enumerate 0 xs) = map (\<lambda>i. f (i, xs ! i)) [0..<length xs]"
  by (rule nth_equalityI) (simp_all add: nth_enumerate_eq)

subsection \<open>The set clause and its values\<close>

text \<open>
  When no emitted column name (the translation of a key when it is truthy, the key itself
  otherwise) holds a double quote, as for the field names that the schemas enumerate, the
  placeholders of \<open>setCols\<close>, read from left to right, are \<open>1..n\<close> where \<open>n\<close> is the number
  of values; the values are those of the payload in key order, and the \<open>i\<close>-th fragment of
  the text assigns placeholder \<open>i+1\<close> to the column of the \<open>i\<close>-th key.
\<close>

lemma sqlForPartialUpdate_placeholders_unquoted:
  assumes "dataToUpdate \<noteq> []"
    and "\<forall>k\<in>set (Object_keys dataToUpdate). dquote \<notin> set (column_name jsToSql k)"
  shows "\<exists>r. sqlForPartialUpdate dataToUpdate jsToSql = Inr r
           \<and> placeholders (setCols r) = [1 ..< Suc (length (values_of r))]
           \<and> values_of r = map snd dataToUpdate
           \<and> setCols r = join '', '' (map (\<lambda>i. col_fragment jsToSql (i, fst (dataToUpdate ! i)))
                                         [0 ..< length dataToUpdate])"
proof -
  let ?keys = "Object_keys dataToUpdate"
  let ?r = "\<lparr> setCols = join '', '' (map (col_fragment jsToSql) (enumerate 0 ?keys)),
              values_of = Object_values dataToUpdate \<rparr>"
  have res: "sqlForPartialUpdate dataToUpdate jsToSql = Inr ?r"
    using assms(1) by (simp add: sqlForPartialUpdate_def Object_keys_def)
  have ph: "placeholders (setCols ?r) = [1 ..< Suc (length (values_of ?r))]"
    using placeholders_from_join_cols [OF assms(2), of 0]
    by (simp add: placeholders_def Object_keys_def Object_values_def)
  have frag: "setCols ?r = join '', '' (map (\<lambda>i. col_fragment jsToSql (i, fst (dataToUpdate ! i)))
                                         [0 ..< length dataToUpdate])"
  proof -
    have eq: "map (\<lambda>i. col_fragment jsToSql (i, map fst dataToUpdate ! i)) [0 ..< length dataToUpdate]
          = map (\<lambda>i. col_fragment jsToSql (i, fst (dataToUpdate ! i))) [0 ..< length dataToUpdate]"
      by (rule map_cong) auto
    show ?thesis
      by (simp only: partial_update.simps enumerate_map_nth Object_keys_def length_map eq)
  qed
  show ?thesis
    using res ph frag by (simp add: Object_values_def)
qed

text \<open>The example of the doc comment, with a translated and an untranslated key.\<close>

lemma sqlForPartialUpdate_example:
  \<open>sqlForPartialUpdate [(''firstName'', JStr ''Aliya''), (''age'', JNum ''32'')]
       (object_literal [(''firstName'', JStr ''first_name'')])
     = Inr \<lparr> setCols = ''"first_name"=$1, "age"=$2'', values_of = [JStr ''Aliya'', JNum ''32''] \<rparr>
   \<and> placeholders ''"first_name"=$1, "age"=$2'' = [1, 2]\<close>
  by code_simp

text \<open>A key that the table inherits is translated to the text of the inherited value.\<close>

lemma sqlForPartialUpdate_inherited_key:
  \<open>sqlForPartialUpdate [(''constructor'', JNum ''5'')] Job_jsToSql
     = Inr \<lparr> setCols = ''"function Object() { [native code] }"=$1'', values_of = [JNum ''5''] \<rparr>\<close>
  by code_simp

text \<open>
  C1: the claim is that for every non-empty payload the placeholders of \<open>setCols\<close> are
  exactly \<open>1..n\<close> for the \<open>n\<close> returned values, in step with them. The code writes each key
  between double quotes as it is, without doubling a double quote that the key holds. The
  payload \<open>{'x"=$7, "y': 1}\<close>, which the schema of the job update lets through, closes the
  quoted identifier early: \<open>setCols\<close> has the two placeholders 7 and 1 against one value.
\<close>

theorem sqlForPartialUpdate_quote_in_key:
  \<open>sqlForPartialUpdate [(''x"=$7, "y'', JNum ''1'')] Job_jsToSql
     = Inr \<lparr> setCols = ''"x"=$7, "y"=$1'', values_of = [JNum ''1''] \<rparr>
   \<and> placeholders ''"x"=$7, "y"=$1'' = [7, 1]
   \<and> length (placeholders ''"x"=$7, "y"=$1'') \<noteq> length [JNum ''1'']
   \<and> Job_update_statement (JStr ''manager'') [(''x"=$7, "y'', JNum ''1'')]
     = Inr (Job_update_text ''"x"=$7, "y"=$1'' ''$2'', [JNum ''1'', JStr ''manager''])\<close>
  by code_simp

text \<open>
  C8: with an empty field mapping, whatever the translation table,
  \<open>sqlForPartialUpdate\<close> fails with the BadRequest error "No data"; no clause and
  no value sequence is produced.
\<close>

theorem sqlForPartialUpdate_empty:
  "sqlForPartialUpdate [] jsToSql = Inl (BadRequestError ''No data'')"
  by (simp add: sqlForPartialUpdate_def Object_keys_def)

section \<open>Properties of the listing operations\<close>

text \<open>
  C10: the claim is that \<open>Company.findAll()\<close>, called with no argument, throws no type
  error and returns the full listing. In the code the parameter defaults to \<open>null\<close> and
  \<open>Object.keys(query)\<close> runs before the test \<open>!query\<close>: the call fails with a
  TypeError and executes nothing.
\<close>

theorem Company_findAll_no_argument:
  "Company_findAll exec None c = (Inl TypeError, c)"
  by (simp add: Company_findAll_def Company_findAll_statement_def)

text \<open>
  A statement is built only for an object, and its text is then the one with \<open>WHERE\<close>: no
  call reaches the branch of \<open>!query\<close>, the query without filters.
\<close>

lemma Company_findAll_statement_filtered:
  "Company_findAll_statement query = Inr st \<Longrightarrow>
   \<exists>q queryKeys. query = Obj q \<and> fst st = Company_findAll_text queryKeys"
  by (cases query) (auto simp: Company_findAll_statement_def Let_def split: if_splits)

text \<open>
  C2: the claim is that with an empty filter mapping the query text has no \<open>WHERE\<close>.
  \<open>Company.findAll({})\<close> takes the branch for a truthy query and executes a text in which
  \<open>WHERE\<close> is followed by the empty clause and \<open>ORDER BY name\<close>.
\<close>

theorem Company_findAll_empty_object:
  "Company_findAll exec (Some []) c = db_query exec (Company_findAll_text [], []) c
   \<and> Company_findAll_text [] = Company_select_columns @ spaces 9 @ ''WHERE '' @ nl @ spaces 9 @ ''ORDER BY name''
   \<and> sublist ''WHERE'' (Company_findAll_text [])"
  apply (intro conjI)
    apply (simp add: Company_findAll_def Company_findAll_statement_def Object_keys_def Object_values_def join_clauses_def get_prop_def)
   apply (simp add: Company_findAll_text_def)
  apply code_simp
  done

text \<open>
  \<open>Job.findAll\<close> with the empty object, or with no argument, builds the empty where clause and
  a text without \<open>WHERE\<close>.
\<close>

lemma Job_findAll_empty_object:
  "Job_findAll exec (Some []) c = db_query exec (Job_findAll_text [], []) c
   \<and> Job_findAll exec None c = db_query exec (Job_findAll_text [], []) c
   \<and> \<not> sublist ''WHERE'' (Job_findAll_text [])"
  apply (intro conjI)
    apply (simp add: Job_findAll_def Job_findAll_statement_def Job_checkForBadQueries_def Object_keys_def Object_values_def join_clauses_def get_prop_def)
    apply (simp add: Job_findAll_def Job_findAll_statement_def Job_checkForBadQueries_def Object_keys_def Object_values_def join_clauses_def get_prop_def)
  apply code_simp
  done

lemma sublist_join: "k \<in> set ks \<Longrightarrow> sublist k (join sep ks)"
proof (induction sep ks rule: join.induct)
  case (1 sep)
  then show ?case by simp
next
  case (2 sep x)
  then show ?case by simp
next
  case (3 sep x y ys)
  show ?case
  proof (cases "k = x")
    case True
    then show ?thesis by (simp add: sublist_append)
  next
    case False
    with 3 have "sublist k (join sep (y # ys))" by simp
    then show ?thesis by (simp add: sublist_append)
  qed
qed

lemma invalid_params_message_names:
  "k \<in> set ks \<Longrightarrow> sublist k (invalid_params_message ks)"
proof -
  assume "k \<in> set ks"
  then have "sublist k (join '','' ks)"
    by (rule sublist_join)
  moreover have "sublist (join '','' ks) (invalid_params_message ks)"
    unfolding invalid_params_message_def
    by (metis append.assoc sublist_appendI)
  ultimately show ?thesis
    by (rule sublist_order.order.trans)
qed

lemma Job_findAll_invalid:
  assumes "filter (\<lambda>k. k \<notin> set Job_validParams) (Object_keys query) \<noteq> []"
  shows "Job_findAll exec (Some query) c =
         (Inl (BadRequestError (invalid_params_message
            (filter (\<lambda>k. k \<notin> set Job_validParams) (Object_keys query)))), c)"
  using assms
  by (simp add: Job_findAll_def Job_findAll_statement_def Job_checkForBadQueries_def Let_def)

lemma models_job_findAll_invalid:
  assumes "filter (\<lambda>k. k \<notin> set Job_validParams) (Object_keys query) \<noteq> []"
  shows "models_job_findAll exec (Some query) c =
         (Inl (BadRequestError (invalid_params_message
            (filter (\<lambda>k. k \<notin> set Job_validParams) (Object_keys query)))), c)"
  using assms
  by (simp add: models_job_findAll_def models_job_findAll_statement_def
      models_job_checkForBadQueries_def Job_validParams_def Let_def)

lemma Company_findAll_invalid:
  assumes "filter (\<lambda>k. k \<notin> set Company_validParams) (Object_keys query) \<noteq> []"
  shows "Company_findAll exec (Some query) c =
         (Inl (BadRequestError (invalid_params_message
            (filter (\<lambda>k. k \<notin> set Company_validParams) (Object_keys query)))), c)"
  using assms
  by (simp add: Company_findAll_def Company_findAll_statement_def Let_def)

text \<open>
  C4: when the filter mapping has at least one key outside the recognised set of the entity,
  \<open>findAll\<close> fails with a BadRequest error and the connection is as it was: no statement
  has been executed. The message holds the list of all the unrecognised keys, so every one of
  them occurs in it.
\<close>

theorem findAll_unrecognised_keys:
  "((\<exists>k\<in>set (Object_keys query). k \<notin> set Job_validParams) \<longrightarrow>
      (let invalidKeys = filter (\<lambda>k. k \<notin> set Job_validParams) (Object_keys query);
           failure = (Inl (BadRequestError (invalid_params_message invalidKeys)), c)
       in Job_findAll exec (Some query) c = failure
        \<and> models_job_findAll exec (Some query) c = failure
        \<and> (\<forall>k\<in>set (Object_keys query). k \<notin> set Job_validParams \<longrightarrow>
              sublist k (invalid_params_message invalidKeys))))
   \<and> ((\<exists>k\<in>set (Object_keys query). k \<notin> set Company_validParams) \<longrightarrow>
      (let invalidKeys = filter (\<lambda>k. k \<notin> set Company_validParams) (Object_keys query);
           failure = (Inl (BadRequestError (invalid_params_message invalidKeys)), c)
       in Company_findAll exec (Some query) c = failure
        \<and> (\<forall>k\<in>set (Object_keys query). k \<notin> set Company_validParams \<longrightarrow>
              sublist k (invalid_params_message invalidKeys))))"
proof -
  have names: "\<forall>k\<in>set (Object_keys query). k \<notin> set valid \<longrightarrow>
      sublist k (invalid_params_message (filter (\<lambda>k. k \<notin> set valid) (Object_keys query)))"
    for valid
    by (auto intro: invalid_params_message_names)
  have ne: "filter (\<lambda>k. k \<notin> set valid) (Object_keys query) \<noteq> []"
    if "\<exists>k\<in>set (Object_keys query). k \<notin> set valid" for valid
    using that by (auto simp: filter_empty_conv)
  show ?thesis
    unfolding Let_def
    using names [of Job_validParams] names [of Company_validParams]
      Job_findAll_invalid [OF ne [of Job_validParams], of exec c]
      models_job_findAll_invalid [OF ne [of Job_validParams], of exec c]
      Company_findAll_invalid [OF ne [of Company_validParams], of exec c]
    by blast
qed

theorem findAll_unrecognised_keys_witness:
  "Job_findAll (\<lambda>s st. (Inr [], s))
      (Some [(''title'', JStr ''c''), (''bogus'', JStr ''x''), (''potato'', JStr ''soup'')])
      \<lparr> store = (), executed = [] \<rparr>
   = (Inl (BadRequestError (invalid_params_message [''bogus'', ''potato''])),
      \<lparr> store = (), executed = [] \<rparr>)
   \<and> sublist ''bogus'' (invalid_params_message [''bogus'', ''potato''])
   \<and> sublist ''potato'' (invalid_params_message [''bogus'', ''potato''])
   \<and> Company_findAll (\<lambda>s st. (Inr [], s))
      (Some [(''title'', JStr ''c''), (''bogus'', JStr ''x''), (''potato'', JStr ''soup'')])
      \<lparr> store = (), executed = [] \<rparr>
   = (Inl (BadRequestError (invalid_params_message [''title'', ''bogus'', ''potato''])),
      \<lparr> store = (), executed = [] \<rparr>)"
proof -
  let ?q = "[(''title'', JStr ''c''), (''bogus'', JStr ''x''), (''potato'', JStr ''soup'')]"
  have h1: "\<exists>k\<in>set (Object_keys ?q). k \<notin> set Job_validParams"
    by (simp add: Object_keys_def Job_validParams_def)
  have h2: "\<exists>k\<in>set (Object_keys ?q). k \<notin> set Company_validParams"
    by (simp add: Object_keys_def Company_validParams_def)
  have f1: "filter (\<lambda>k. k \<notin> set Job_validParams) (Object_keys ?q) = [''bogus'', ''potato'']"
    by (simp add: Object_keys_def Job_validParams_def)
  have f2: "filter (\<lambda>k. k \<notin> set Company_validParams) (Object_keys ?q)
            = [''title'', ''bogus'', ''potato'']"
    by (simp add: Object_keys_def Company_validParams_def)
  have k1: "set (Object_keys ?q) = {''title'', ''bogus'', ''potato''}"
    by (simp add: Object_keys_def)
  have v1: "''bogus'' \<notin> set Job_validParams" "''potato'' \<notin> set Job_validParams"
    by (simp_all add: Job_validParams_def)
  note T = findAll_unrecognised_keys
         [where exec = "\<lambda>s st. (Inr [], s)" and c = "\<lparr> store = (), executed = [] \<rparr>"
            and query = ?q]
  note TJ = T [THEN conjunct1, THEN mp, OF h1, unfolded Let_def f1]
  note TC = T [THEN conjunct2, THEN mp, OF h2, unfolded Let_def f2]
  note names = TJ [THEN conjunct2, THEN conjunct2]
  have "sublist ''bogus'' (invalid_params_message [''bogus'', ''potato''])"
    and "sublist ''potato'' (invalid_params_message [''bogus'', ''potato''])"
    using names v1 unfolding k1 by simp_all
  with TJ [THEN conjunct1] TC [THEN conjunct1] show ?thesis
    by simp
qed

subsection \<open>The order of the rows\<close>

lemma Job_findAll_text_order: "suffix ''ORDER BY title'' (Job_findAll_text whereClause)"
  unfolding Job_findAll_text_def
  by (intro suffix_appendI suffix_order.refl)

lemma Company_findAll_text_order: "suffix ''ORDER BY name'' (Company_findAll_text queryKeys)"
  unfolding Company_findAll_text_def
  by (intro suffix_appendI suffix_order.refl)

lemma Company_findAll_text_unfiltered_order: "suffix ''ORDER BY name'' Company_findAll_text_unfiltered"
  unfolding Company_findAll_text_unfiltered_def
  by (intro suffix_appendI suffix_order.refl)

lemma Job_findAll_statement_order:
  "Job_findAll_statement q = Inr (text, vals) \<Longrightarrow> suffix ''ORDER BY title'' text"
  by (auto simp: Job_findAll_statement_def Let_def Job_findAll_text_order split: sum.splits)

lemma models_job_findAll_statement_order:
  "models_job_findAll_statement q = Inr (text, vals) \<Longrightarrow> suffix ''ORDER BY title'' text"
  by (auto simp: models_job_findAll_statement_def Let_def Job_findAll_text_order split: sum.splits)

lemma Company_findAll_statement_order:
  "Company_findAll_statement q = Inr (text, vals) \<Longrightarrow> suffix ''ORDER BY name'' text"
  by (auto simp: Company_findAll_statement_def Let_def Company_findAll_text_order
      Company_findAll_text_unfiltered_order split: sum.splits if_splits query_arg.splits)

lemma db_query_rows:
  "db_query exec st c = (Inr rows, c') \<Longrightarrow> \<exists>s'. exec (store c) st = (Inr rows, s')"
  by (auto simp: db_query_def split: prod.splits)

text \<open>
  C9: every statement that a listing operation executes ends with \<open>ORDER BY title\<close> (jobs)
  or \<open>ORDER BY name\<close> (companies), whatever the filters, and \<open>findAll\<close> returns the rows
  of the executor as they are. Hence, for an executor that returns the rows of a statement
  ending with \<open>ORDER BY k\<close> in ascending order of \<open>k\<close>, the rows that \<open>findAll\<close> returns
  are in ascending order of the display key, for every filter mapping and also without one.
\<close>

theorem findAll_ordered_by_display_key:
  assumes "\<forall>s text vals rows s'. exec s (text, vals) = (Inr rows, s') \<longrightarrow>
             (suffix ''ORDER BY title'' text \<longrightarrow> ordered_by le ''title'' rows)
           \<and> (suffix ''ORDER BY name'' text \<longrightarrow> ordered_by le ''name'' rows)"
  shows "(\<forall>rows c'. Job_findAll exec arg c = (Inr rows, c') \<longrightarrow> ordered_by le ''title'' rows)
       \<and> (\<forall>rows c'. models_job_findAll exec arg c = (Inr rows, c') \<longrightarrow> ordered_by le ''title'' rows)
       \<and> (\<forall>rows c'. Company_findAll exec arg c = (Inr rows, c') \<longrightarrow> ordered_by le ''name'' rows)
       \<and> (\<forall>q text vals. Job_findAll_statement q = Inr (text, vals) \<longrightarrow> suffix ''ORDER BY title'' text)
       \<and> (\<forall>q text vals. models_job_findAll_statement q = Inr (text, vals) \<longrightarrow>
             suffix ''ORDER BY title'' text)
       \<and> (\<forall>q text vals. Company_findAll_statement q = Inr (text, vals) \<longrightarrow>
             suffix ''ORDER BY name'' text)"
proof -
  have job: "ordered_by le ''title'' rows" if "Job_findAll exec arg c = (Inr rows, c')" for rows c'
  proof -
    from that obtain sql vals where st: "Job_findAll_statement (case arg of None \<Rightarrow> [] | Some q \<Rightarrow> q) = Inr (sql, vals)"
      and run: "db_query exec (sql, vals) c = (Inr rows, c')"
      by (auto simp: Job_findAll_def Let_def split: sum.splits)
    from run obtain s' where "exec (store c) (sql, vals) = (Inr rows, s')"
      by (auto dest: db_query_rows)
    with assms Job_findAll_statement_order [OF st] show ?thesis by blast
  qed
  have mjob: "ordered_by le ''title'' rows" if "models_job_findAll exec arg c = (Inr rows, c')" for rows c'
  proof -
    from that obtain sql vals where st: "models_job_findAll_statement (case arg of None \<Rightarrow> [] | Some q \<Rightarrow> q) = Inr (sql, vals)"
      and run: "db_query exec (sql, vals) c = (Inr rows, c')"
      by (auto simp: models_job_findAll_def Let_def split: sum.splits)
    from run obtain s' where "exec (store c) (sql, vals) = (Inr rows, s')"
      by (auto dest: db_query_rows)
    with assms models_job_findAll_statement_order [OF st] show ?thesis by blast
  qed
  have company: "ordered_by le ''name'' rows" if "Company_findAll exec arg c = (Inr rows, c')" for rows c'
  proof -
    from that obtain sql vals where st: "Company_findAll_statement (case arg of None \<Rightarrow> Null | Some q \<Rightarrow> Obj q) = Inr (sql, vals)"
      and run: "db_query exec (sql, vals) c = (Inr rows, c')"
      by (auto simp: Company_findAll_def Let_def split: sum.splits)
    from run obtain s' where "exec (store c) (sql, vals) = (Inr rows, s')"
      by (auto dest: db_query_rows)
    with assms Company_findAll_statement_order [OF st] show ?thesis by blast
  qed
  show ?thesis
    using job mjob company Job_findAll_statement_order models_job_findAll_statement_order
      Company_findAll_statement_order
    by blast
qed

theorem findAll_ordered_by_display_key_witness:
  "Job_findAll
      (\<lambda>s st. (Inr [[(''title'', JStr ''cook'')], [(''title'', JStr ''manager'')],
                      [(''title'', JStr ''teacher'')]], s))
      None \<lparr> store = (), executed = [] \<rparr>
   = (Inr [[(''title'', JStr ''cook'')], [(''title'', JStr ''manager'')], [(''title'', JStr ''teacher'')]],
      \<lparr> store = (), executed = [(Job_findAll_text [], [])] \<rparr>)
   \<and> ordered_by (\<lambda>a b. toString a \<le> toString b) ''title''
        [[(''title'', JStr ''cook'')], [(''title'', JStr ''manager'')], [(''title'', JStr ''teacher'')]]"
proof -
  let ?rows = "[[(''title'', JStr ''cook'')], [(''title'', JStr ''manager'')],
                [(''title'', JStr ''teacher'')]]"
  let ?e = "\<lambda>(s::unit) (st::statement). (Inr ?rows :: error + row list, s)"
  let ?le = "\<lambda>a b. toString a \<le> toString b"
  let ?c = "\<lparr> store = (), executed = [] \<rparr>"
  have h: "\<forall>s sql vals rows s'. ?e s (sql, vals) = (Inr rows, s') \<longrightarrow>
             (suffix ''ORDER BY title'' sql \<longrightarrow> ordered_by ?le ''title'' rows)
           \<and> (suffix ''ORDER BY name'' sql \<longrightarrow> ordered_by ?le ''name'' rows)"
    by (auto simp: ordered_by_def get_prop_def)
  have run: "Job_findAll ?e None ?c = (Inr ?rows, \<lparr> store = (), executed = [(Job_findAll_text [], [])] \<rparr>)"
    by (simp add: Job_findAll_def Job_findAll_statement_def Job_checkForBadQueries_def
        Object_keys_def Object_values_def join_clauses_def get_prop_def db_query_def)
  from findAll_ordered_by_display_key [where exec = ?e and le = ?le and arg = None and c = ?c, OF h]
  have "\<forall>rows c'. Job_findAll ?e None ?c = (Inr rows, c') \<longrightarrow> ordered_by ?le ''title'' rows"
    by (rule conjunct1)
  with run have "ordered_by ?le ''title'' ?rows"
    by blast
  with run show ?thesis
    by (rule conjI)
qed

subsection \<open>The where clause of jobs and its values\<close>

lemma placeholders_from_plain:
  "dquote \<notin> set s \<Longrightarrow> CHR ''$'' \<notin> set s \<Longrightarrow>
   placeholders_from Outside (s @ rest) = placeholders_from Outside rest"
  by (induction s) (auto simp: outside_step_def)

lemma placeholders_from_clause:
  assumes "dquote \<notin> set pre" and "CHR ''$'' \<notin> set pre"
  shows "placeholders_from Outside ((pre @ ''$'' @ show_nat k) @ rest)
         = placeholders_from (Digits k) rest"
proof -
  have "placeholders_from Outside ((pre @ ''$'' @ show_nat k) @ rest)
        = placeholders_from Outside (''$'' @ show_nat k @ rest)"
    using placeholders_from_plain [OF assms, of "''$'' @ show_nat k @ rest"] by simp
  also have "\<dots> = placeholders_from Dollar (show_nat k @ rest)"
    by (simp add: outside_step_def dquote_def)
  finally show ?thesis
    by (simp only: placeholders_from_Dollar_show_nat)
qed

lemma placeholders_from_Digits_end:
  assumes "\<not> is_digit c" and "dquote \<notin> set (c # r)" and "CHR ''$'' \<notin> set (c # r)"
  shows "placeholders_from (Digits k) (c # r) = [k]"
proof -
  have "placeholders_from (Digits k) (c # r) = k # placeholders_from Outside r"
    using assms by (auto simp: outside_step_def)
  also have "placeholders_from Outside r = placeholders_from Outside (r @ [])"
    by simp
  also have "\<dots> = []"
    using assms(2,3) by (subst placeholders_from_plain) simp_all
  finally show ?thesis .
qed

lemma placeholders_from_join_clauses:
  assumes "\<forall>p\<in>set (enumerate n ks). \<exists>pre. dquote \<notin> set pre \<and> CHR ''$'' \<notin> set pre
              \<and> f p = pre @ ''$'' @ show_nat (fst p + 1)"
    and "ks \<noteq> []"
    and "\<not> is_digit c" and "dquote \<notin> set (c # r)" and "CHR ''$'' \<notin> set (c # r)"
  shows "placeholders_from Outside (join '' AND '' (map f (enumerate n ks)) @ c # r)
         = [n + 1 ..< n + 1 + length ks]"
  using assms(1,2)
proof (induction ks arbitrary: n)
  case Nil
  then show ?case by simp
next
  case (Cons k ks)
  from Cons.prems(1) obtain pre where pre: "dquote \<notin> set pre" "CHR ''$'' \<notin> set pre"
    and fk: "f (n, k) = pre @ ''$'' @ show_nat (n + 1)"
    by auto
  show ?case
  proof (cases ks)
    case Nil
    have "placeholders_from Outside (join '' AND '' (map f (enumerate n [k])) @ c # r)
          = placeholders_from (Digits (n + 1)) (c # r)"
      using placeholders_from_clause [OF pre, of "n + 1" "c # r"] fk by simp
    also have "\<dots> = [n + 1]"
      using assms(3,4,5) by (rule placeholders_from_Digits_end)
    finally show ?thesis using Nil by simp
  next
    case (Cons k' ks')
    let ?tail = "join '' AND '' (map f (enumerate (Suc n) ks)) @ c # r"
    have "placeholders_from Outside (join '' AND '' (map f (enumerate n (k # ks))) @ c # r)
          = placeholders_from Outside ((pre @ ''$'' @ show_nat (n + 1)) @ '' AND '' @ ?tail)"
      using Cons fk by simp
    also have "\<dots> = placeholders_from (Digits (n + 1)) ('' AND '' @ ?tail)"
      using pre by (rule placeholders_from_clause)
    also have "\<dots> = (n + 1) # placeholders_from Outside ?tail"
      by (simp add: is_digit_def outside_step_def dquote_def)
    also have "placeholders_from Outside ?tail = [Suc n + 1 ..< Suc n + 1 + length ks]"
      using Cons.prems(1) Cons by (intro Cons.IH) auto
    also have "(n + 1) # [Suc n + 1 ..< Suc n + 1 + length ks] = [n + 1 ..< n + 1 + length (k # ks)]"
    proof -
      have "[n + 1 ..< n + 1 + length (k # ks)] = (n + 1) # [Suc (n + 1) ..< n + 1 + length (k # ks)]"
        by (rule upt_conv_Cons) simp
      then show ?thesis by simp
    qed
    finally show ?thesis .
  qed
qed

lemma get_prop_nth:
  assumes "distinct (map fst q)" and "i < length q" and "q ! i = (k, v)"
  shows "get_prop q k = v"
proof -
  from assms(2,3) have "(k, v) \<in> set q"
    by (metis nth_mem)
  with assms(1) have "map_of q k = Some v"
    by simp
  then show ?thesis
    by (simp add: get_prop_def)
qed

lemma get_prop_mem:
  "distinct (map fst q) \<Longrightarrow> (k, v) \<in> set q \<Longrightarrow> get_prop q k = v"
  by (simp add: get_prop_def)

lemma get_prop_assign_other:
  "k' \<noteq> k \<Longrightarrow> get_prop (assign k w q) k' = get_prop q k'"
  by (induction q) (auto simp: get_prop_def assign_def)

lemma Object_values_after_wrapping:
  assumes "distinct (map fst q)"
  shows "Object_values (if truthy (get_prop q likeKey)
                        then assign likeKey (wrap_like (get_prop q likeKey)) q else q)
         = map (bound_value likeKey) q"
proof (cases "truthy (get_prop q likeKey)")
  case True
  have "snd (case p of (k', x) \<Rightarrow> if k' = likeKey then (k', wrap_like (get_prop q likeKey)) else (k', x))
        = bound_value likeKey p" if "p \<in> set q" for p
  proof (cases p)
    case (Pair k x)
    with that assms True show ?thesis
      by (auto simp: bound_value_def dest: get_prop_mem)
  qed
  with True show ?thesis
    by (simp add: Object_values_def assign_def)
next
  case False
  have "snd p = bound_value likeKey p" if "p \<in> set q" for p
  proof (cases p)
    case (Pair k x)
    with that assms False show ?thesis
      by (auto simp: bound_value_def dest: get_prop_mem)
  qed
  with False show ?thesis
    by (simp add: Object_values_def)
qed

lemma join_not_Nil: "x \<noteq> [] \<Longrightarrow> join sep (x # xs) \<noteq> []"
  by (cases xs) simp_all

lemma Job_clause_form:
  assumes "key \<in> set Job_validParams"
  shows "\<exists>pre. dquote \<notin> set pre \<and> CHR ''$'' \<notin> set pre
           \<and> (case Job_makeKeyStatementsForWhereClauses query key idx of None \<Rightarrow> [] | Some t \<Rightarrow> t)
               = pre @ ''$'' @ show_nat (idx + 1)"
proof -
  from assms consider "key = ''title''" | "key = ''minSalary''" | "key = ''hasEquity''"
    by (auto simp: Job_validParams_def)
  then show ?thesis
  proof cases
    case 1
    then show ?thesis
      by (intro exI [of _ "'' title ILIKE ''"])
         (simp add: Job_makeKeyStatementsForWhereClauses_def dquote_def)
  next
    case 2
    then show ?thesis
      by (intro exI [of _ "''salary >= ''"])
         (simp add: Job_makeKeyStatementsForWhereClauses_def dquote_def)
  next
    case 3
    show ?thesis
    proof (cases "get_prop query ''hasEquity'' = JStr ''false'' \<or> \<not> truthy (get_prop query ''hasEquity'')")
      case True
      with 3 show ?thesis
        by (intro exI [of _ "''equity = ''"])
           (simp add: Job_makeKeyStatementsForWhereClauses_def dquote_def)
    next
      case False
      with 3 show ?thesis
        by (intro exI [of _ "''equity > ''"])
           (simp add: Job_makeKeyStatementsForWhereClauses_def dquote_def)
    qed
  qed
qed

lemma Job_findAll_statement_valid:
  assumes "set (Object_keys q) \<subseteq> set Job_validParams" and "distinct (Object_keys q)"
    and "q \<noteq> []"
  shows "Job_findAll_statement q
         = Inr (Job_findAll_text (''WHERE '' @ join '' AND ''
                  (map (\<lambda>p. case Job_makeKeyStatementsForWhereClauses q (snd p) (fst p) of
                              None \<Rightarrow> [] | Some t \<Rightarrow> t)
                       (enumerate 0 (Object_keys q)))),
                filter (\<lambda>v. v \<notin> set boolean_like) (map (bound_value ''title'') q)
                @ (if get_prop q ''hasEquity'' \<noteq> JUndef then [JStr ''0''] else []))"
proof -
  let ?f = "\<lambda>p. case Job_makeKeyStatementsForWhereClauses q (snd p) (fst p) of
                  None \<Rightarrow> [] | Some t \<Rightarrow> t"
  let ?q' = "if truthy (get_prop q ''title'')
             then assign ''title'' (wrap_like (get_prop q ''title'')) q else q"
  from assms(1) have check: "Job_checkForBadQueries (Object_keys q) = Inr ()"
    by (auto simp: Job_checkForBadQueries_def filter_empty_conv)
  have clauses: "join_clauses (map (\<lambda>(idx, key). Job_makeKeyStatementsForWhereClauses q key idx)
                    (enumerate 0 (Object_keys q)))
                 = join '' AND '' (map ?f (enumerate 0 (Object_keys q)))"
    by (simp add: join_clauses_def case_prod_beta comp_def)
  from assms(3) obtain k ks where ks: "Object_keys q = k # ks"
    by (cases q) (auto simp: Object_keys_def)
  with assms(1) have "k \<in> set Job_validParams"
    by simp
  from Job_clause_form [OF this, of q 0] have "?f (0, k) \<noteq> []"
    by auto
  then have nonempty: "join '' AND '' (map ?f (enumerate 0 (Object_keys q))) \<noteq> []"
    unfolding ks by (simp add: join_not_Nil)
  have vals: "Object_values ?q' = map (bound_value ''title'') q"
    using assms(2) unfolding Object_keys_def by (rule Object_values_after_wrapping)
  have he: "get_prop ?q' ''hasEquity'' = get_prop q ''hasEquity''"
    by (simp add: get_prop_assign_other)
  show ?thesis
    unfolding Job_findAll_statement_def Let_def check clauses vals he
    using nonempty by simp
qed

lemma placeholders_Job_findAll_text:
  assumes "set ks \<subseteq> set Job_validParams" and "ks \<noteq> []"
  shows "placeholders (Job_findAll_text (''WHERE '' @ join '' AND ''
            (map (\<lambda>p. case Job_makeKeyStatementsForWhereClauses q (snd p) (fst p) of
                        None \<Rightarrow> [] | Some t \<Rightarrow> t)
                 (enumerate 0 ks))))
         = [1 ..< length ks + 1]"
proof -
  let ?f = "\<lambda>p. case Job_makeKeyStatementsForWhereClauses q (snd p) (fst p) of
                  None \<Rightarrow> [] | Some t \<Rightarrow> t"
  let ?J = "join '' AND '' (map ?f (enumerate 0 ks))"
  let ?P = "''SELECT title, salary, equity, company_handle AS companyHandle'' @ nl @
            spaces 7 @ ''FROM jobs'' @ nl @ spaces 7 @ ''WHERE ''"
  let ?r = "spaces 7 @ ''ORDER BY title''"
  have split: "Job_findAll_text (''WHERE '' @ ?J) = ?P @ (?J @ CHR 0x0A # ?r)"
    by (simp add: Job_findAll_text_def nl_def)
  have plainP: "dquote \<notin> set ?P" "CHR ''$'' \<notin> set ?P"
    by (simp_all add: nl_def spaces_def dquote_def)
  have rest: "\<not> is_digit (CHR 0x0A)" "dquote \<notin> set (CHR 0x0A # ?r)" "CHR ''$'' \<notin> set (CHR 0x0A # ?r)"
    by (simp_all add: is_digit_def spaces_def dquote_def)
  have forms: "\<forall>p\<in>set (enumerate 0 ks). \<exists>pre. dquote \<notin> set pre \<and> CHR ''$'' \<notin> set pre
                 \<and> ?f p = pre @ ''$'' @ show_nat (fst p + 1)"
  proof
    fix p assume "p \<in> set (enumerate 0 ks)"
    then have "fst p < length ks" and "ks ! fst p = snd p"
      by (auto simp: in_set_enumerate_eq)
    then have "snd p \<in> set ks"
      using nth_mem [of "fst p" ks] by simp
    with assms(1) have "snd p \<in> set Job_validParams"
      by auto
    from Job_clause_form [OF this, of q "fst p"]
    show "\<exists>pre. dquote \<notin> set pre \<and> CHR ''$'' \<notin> set pre \<and> ?f p = pre @ ''$'' @ show_nat (fst p + 1)" .
  qed
  have "placeholders (Job_findAll_text (''WHERE '' @ ?J)) = placeholders_from Outside (?J @ CHR 0x0A # ?r)"
    unfolding placeholders_def split using plainP by (rule placeholders_from_plain)
  also have "\<dots> = [0 + 1 ..< 0 + 1 + length ks]"
    using forms assms(2) rest by (rule placeholders_from_join_clauses)
  finally show ?thesis by simp
qed

text \<open>
  The clause of \<open>hasEquity\<close> at its place among the keys: a comparison with \<open>>\<close> when the
  value is truthy and is not the string \<open>'false'\<close>, with \<open>=\<close> otherwise.
\<close>

lemma Job_hasEquity_clause:
  assumes "distinct (Object_keys q)" and "i < length q" and "q ! i = (''hasEquity'', v)"
  shows "Job_makeKeyStatementsForWhereClauses q ''hasEquity'' i
         = Some (''equity '' @ (if truthy v \<and> v \<noteq> JStr ''false'' then ''>'' else ''='')
                 @ '' $'' @ show_nat (i + 1))"
proof -
  from assms have "get_prop q ''hasEquity'' = v"
    unfolding Object_keys_def by (rule get_prop_nth)
  then show ?thesis
    by (simp add: Job_makeKeyStatementsForWhereClauses_def)
qed

text \<open>
  For a non-empty mapping over the recognised keys the text that \<open>findAll\<close> executes has
  the placeholders \<open>1..n\<close>, one for each of the \<open>n\<close> keys in key order.
\<close>

lemma Job_findAll_placeholders:
  assumes "distinct (Object_keys q)" and "set (Object_keys q) \<subseteq> set Job_validParams"
    and "q \<noteq> []"
  shows "\<exists>sql vals. Job_findAll_statement q = Inr (sql, vals)
           \<and> placeholders sql = [1 ..< length q + 1]"
proof -
  have "placeholders (Job_findAll_text (''WHERE '' @ join '' AND ''
            (map (\<lambda>p. case Job_makeKeyStatementsForWhereClauses q (snd p) (fst p) of
                        None \<Rightarrow> [] | Some t \<Rightarrow> t)
                 (enumerate 0 (Object_keys q))))) = [1 ..< length q + 1]"
    using placeholders_Job_findAll_text [OF assms(2), of q] assms(3)
    by (simp add: Object_keys_def)
  with Job_findAll_statement_valid [OF assms(2,1,3)] show ?thesis
    by simp
qed

text \<open>The filters of the test "works: all three filter options", with \<open>hasEquity\<close> last.\<close>

lemma Job_findAll_all_three_filters:
  "Job_findAll_statement
     [(''title'', JStr ''manager''), (''minSalary'', JNum ''50000''), (''hasEquity'', JBool True)]
   = Inr (Job_findAll_text ''WHERE  title ILIKE $1 AND salary >= $2 AND equity > $3'',
          [JStr ''%manager%'', JNum ''50000'', JStr ''0''])"
  by code_simp

text \<open>
  The string \<open>'false'\<close>, which a query string \<open>?hasEquity=false\<close> gives, is truthy and
  yields the comparison of equality with zero.
\<close>

lemma Job_hasEquity_false_string:
  "truthy (JStr ''false'')
   \<and> Job_findAll_statement [(''hasEquity'', JStr ''false'')]
       = Inr (Job_findAll_text ''WHERE equity = $1'', [JStr ''0''])"
  by code_simp

text \<open>
  A value of \<open>hasEquity\<close> outside \<open>[true, false, 'true', 'false']\<close> stays among the values
  and \<open>'0'\<close> is pushed after it: two values for one placeholder.
\<close>

lemma Job_findAll_hasEquity_other_value:
  "Job_findAll_statement [(''hasEquity'', JStr ''yes'')]
   = Inr (Job_findAll_text ''WHERE equity > $1'', [JStr ''yes'', JStr ''0''])"
  by code_simp

text \<open>
  C3: the claim is that the literal 0 is bound at the position that the placeholder of
  \<open>hasEquity\<close> names, each placeholder receiving the value of its own key. \<open>findAll\<close>
  removes the values \<open>true\<close>, \<open>false\<close>, \<open>'true'\<close>, \<open>'false'\<close> from the array and pushes
  \<open>'0'\<close> at its end, whatever the place of \<open>hasEquity\<close> among the keys. For the query string
  \<open>?hasEquity=true&title=c\<close> the text is \<open>equity > $1 AND title ILIKE $2\<close> and the values are
  \<open>['%c%', '0']\<close>: the placeholder of \<open>hasEquity\<close> receives the title and that of the title
  receives \<open>'0'\<close>. The copy in models/job.js writes \<open>equity = $n\<close> for a true value and binds
  the value itself, not 0.
\<close>

theorem Job_findAll_hasEquity_before_title:
  "Job_findAll_statement [(''hasEquity'', JStr ''true''), (''title'', JStr ''c'')]
   = Inr (Job_findAll_text ''WHERE equity > $1 AND  title ILIKE $2'', [JStr ''%c%'', JStr ''0''])
   \<and> placeholders (Job_findAll_text ''WHERE equity > $1 AND  title ILIKE $2'') = [1, 2]
   \<and> Job_makeKeyStatementsForWhereClauses
         [(''hasEquity'', JStr ''true''), (''title'', JStr ''c'')] ''hasEquity'' 0
       = Some ''equity > $1''
   \<and> [JStr ''%c%'', JStr ''0''] ! 0 \<noteq> JStr ''0''
   \<and> models_job_findAll_statement [(''title'', JStr ''c''), (''hasEquity'', JBool True)]
       = Inr (Job_findAll_text ''WHERE  title ILIKE $1 AND equity = $2'', [JStr ''c'', JBool True])"
  by code_simp

subsection \<open>The substring filter\<close>

lemma Company_findAll_statement_valid:
  assumes "set (Object_keys q) \<subseteq> set Company_validParams" and "distinct (Object_keys q)"
  shows "Company_findAll_statement (Obj q)
         = Inr (Company_findAll_text (join_clauses
                  (map (\<lambda>(idx, key). Company_makeKeyStatementsForWhereClauses key idx)
                       (enumerate 0 (Object_keys q)))),
                map (bound_value ''name'') q)"
proof -
  from assms(1) have check: "filter (\<lambda>k. k \<notin> set Company_validParams) (Object_keys q) = []"
    by (auto simp: filter_empty_conv)
  have vals: "Object_values (if truthy (get_prop q ''name'')
                then assign ''name'' (wrap_like (get_prop q ''name'')) q else q)
              = map (bound_value ''name'') q"
    using assms(2) unfolding Object_keys_def by (rule Object_values_after_wrapping)
  show ?thesis
    unfolding Company_findAll_statement_def Let_def keys_of.simps sum.case query_arg.case
      check vals
    by simp
qed

lemma other_key:
  assumes "distinct (map fst q)" and "i < length q" and "j < length q" and "j \<noteq> i"
    and "q ! i = (k, v)"
  shows "fst (q ! j) \<noteq> k"
proof -
  from assms(1-3) have "(map fst q ! j = map fst q ! i) = (j = i)"
    by (intro nth_eq_iff_index_eq) simp_all
  with assms(2-5) show ?thesis
    by simp
qed

text \<open>
  \<open>Company.findAll\<close> binds every value at the place of its own key: the value of \<open>name\<close>
  wrapped once when it is truthy, as supplied when it is falsy (the guard \<open>if (query.name)\<close>),
  and the other values as supplied. The clause of the substring key is built from the key
  and its index alone.
\<close>

lemma Company_findAll_binds_in_place:
  assumes "distinct (Object_keys q)" and "set (Object_keys q) \<subseteq> set Company_validParams"
    and "i < length q" and "q ! i = (''name'', v)"
  shows "\<exists>sql vals. Company_findAll_statement (Obj q) = Inr (sql, vals)
           \<and> length vals = length q
           \<and> vals ! i = (if truthy v then JStr (''%'' @ toString v @ ''%'') else v)
           \<and> (\<forall>j<length q. j \<noteq> i \<longrightarrow> vals ! j = snd (q ! j))"
proof -
  let ?vals = "map (bound_value ''name'') q"
  have own: "?vals ! i = (if truthy v then JStr (''%'' @ toString v @ ''%'') else v)"
    using assms(3,4) by (simp add: bound_value_def wrap_like_def)
  have others: "?vals ! j = snd (q ! j)" if "j < length q" and "j \<noteq> i" for j
  proof -
    from assms(1,3) that assms(4) have "fst (q ! j) \<noteq> ''name''"
      unfolding Object_keys_def by (rule other_key)
    with that(1) show ?thesis
      by (simp add: bound_value_def)
  qed
  from Company_findAll_statement_valid [OF assms(2,1)] own others show ?thesis
    by simp
qed

lemma substring_clause_text:
  "Company_makeKeyStatementsForWhereClauses ''name'' i = Some ('' name ILIKE $'' @ show_nat (i + 1))"
  "Job_makeKeyStatementsForWhereClauses query ''title'' i = Some ('' title ILIKE $'' @ show_nat (i + 1))"
  "models_job_makeKeyStatementsForWhereClauses ''title'' i = Some ('' title ILIKE $'' @ show_nat (i + 1))"
  by (simp_all add: Company_makeKeyStatementsForWhereClauses_def
      Job_makeKeyStatementsForWhereClauses_def models_job_makeKeyStatementsForWhereClauses_def)

lemma Company_findAll_name_example:
  "Company_findAll_statement (Obj [(''minEmployees'', JNum ''10''), (''name'', JStr ''net'')])
   = Inr (Company_findAll_text ''num_employees >= $1 AND  name ILIKE $2'',
          [JNum ''10'', JStr ''%net%''])"
  by code_simp

lemma Company_findAll_empty_name:
  "Company_findAll_statement (Obj [(''name'', JStr [])])
   = Inr (Company_findAll_text '' name ILIKE $1'', [JStr []])"
  by code_simp

text \<open>
  C5: the claim is that the value bound for the substring key is the supplied value
  wrapped once. The copy of \<open>Job.findAll\<close> in models/job.js binds the values of the query as
  they are: for \<open>{title: 'c'}\<close> the value bound to \<open>title ILIKE $1\<close> is \<open>'c'\<close>. The other copy
  wraps the title, but its filter of the values \<open>true\<close>, \<open>false\<close>, \<open>'true'\<close>, \<open>'false'\<close> moves
  the wrapped title away from its placeholder: for the query string
  \<open>?hasEquity=false&title=co\<close> the value bound to \<open>title ILIKE $2\<close> is \<open>'0'\<close>.
\<close>

theorem Job_findAll_title_binding:
  "models_job_findAll_statement [(''title'', JStr ''c'')]
   = Inr (Job_findAll_text ''WHERE  title ILIKE $1'', [JStr ''c''])
   \<and> JStr ''c'' \<noteq> JStr (''%'' @ toString (JStr ''c'') @ ''%'')
   \<and> Job_findAll_statement [(''hasEquity'', JStr ''false''), (''title'', JStr ''co'')]
     = Inr (Job_findAll_text ''WHERE equity = $1 AND  title ILIKE $2'', [JStr ''%co%'', JStr ''0''])
   \<and> Job_makeKeyStatementsForWhereClauses
         [(''hasEquity'', JStr ''false''), (''title'', JStr ''co'')] ''title'' 1
       = Some '' title ILIKE $2''
   \<and> [JStr ''%co%'', JStr ''0''] ! 1 \<noteq> JStr (''%'' @ toString (JStr ''co'') @ ''%'')"
  by code_simp

section \<open>Properties of update\<close>

lemma db_query_executed:
  "executed (snd (db_query exec st c)) = executed c @ [st]"
  by (simp add: db_query_def split: prod.splits)

lemma db_query_fst: "fst (db_query exec st c) = fst (exec (store c) st)"
  by (simp add: db_query_def split: prod.splits)

lemma Company_update_statement_nonempty:
  assumes "data \<noteq> []"
  shows "\<exists>r. sqlForPartialUpdate data Company_jsToSql = Inr r
          \<and> Company_update_statement handle data
              = Inr (Company_update_text (setCols r) (''$'' @ show_nat (length (values_of r) + 1)),
                     values_of r @ [handle])"
  using assms
  by (simp add: Company_update_statement_def sqlForPartialUpdate_def Object_keys_def Let_def)

lemma Job_update_statement_nonempty:
  assumes "data \<noteq> []"
  shows "\<exists>r. sqlForPartialUpdate data Job_jsToSql = Inr r
          \<and> Job_update_statement title data
              = Inr (Job_update_text (setCols r) (''$'' @ show_nat (length (values_of r) + 1)),
                     values_of r @ [title])"
  using assms
  by (simp add: Job_update_statement_def sqlForPartialUpdate_def Object_keys_def Let_def)

lemma Company_update_run:
  assumes "Company_update_statement handle data = Inr st"
  shows "executed (snd (Company_update exec handle data c)) = executed c @ [st]"
    and "fst (exec (store c) st) = Inr [] \<Longrightarrow>
         fst (Company_update exec handle data c) = Inl (NotFoundError (''No company: '' @ toString handle))"
    and "fst (exec (store c) st) = Inr (row # rows) \<Longrightarrow>
         fst (Company_update exec handle data c) = Inr row"
    and "fst (exec (store c) st) = Inl e \<Longrightarrow> fst (Company_update exec handle data c) = Inl e"
  using assms
  by (auto simp: Company_update_def db_query_def first_row_def split: prod.splits sum.splits list.splits)

lemma Job_update_run:
  assumes "Job_update_statement title data = Inr st"
  shows "executed (snd (Job_update exec title data c)) = executed c @ [st]"
    and "fst (exec (store c) st) = Inr [] \<Longrightarrow>
         fst (Job_update exec title data c) = Inl (NotFoundError (''No company: '' @ toString title))"
    and "fst (exec (store c) st) = Inr (row # rows) \<Longrightarrow>
         fst (Job_update exec title data c) = Inr row"
    and "fst (exec (store c) st) = Inl e \<Longrightarrow> fst (Job_update exec title data c) = Inl e"
  using assms
  by (auto simp: Job_update_def db_query_def first_row_def split: prod.splits sum.splits list.splits)

text \<open>
  C6: for every identifier and every non-empty field mapping, \<open>update\<close> executes one
  statement whose bound values are the values of the partial update followed by the
  identifier, which is thus the value at position \<open>values.length + 1\<close>, the position that
  the text names after \<open>WHERE\<close>. When the executor returns no row the result is a NotFound
  error; when it returns rows the result is the first of them.
\<close>

theorem update_appends_identifier:
  assumes "data \<noteq> []"
  shows "(\<exists>r. sqlForPartialUpdate data Company_jsToSql = Inr r \<and>
            (let st = (Company_update_text (setCols r) (''$'' @ show_nat (length (values_of r) + 1)),
                       values_of r @ [ident])
             in executed (snd (Company_update exec ident data c)) = executed c @ [st]
              \<and> snd st ! length (values_of r) = ident
              \<and> length (snd st) = length (values_of r) + 1
              \<and> (fst (exec (store c) st) = Inr [] \<longrightarrow>
                   fst (Company_update exec ident data c)
                   = Inl (NotFoundError (''No company: '' @ toString ident)))
              \<and> (\<forall>row rows. fst (exec (store c) st) = Inr (row # rows) \<longrightarrow>
                   fst (Company_update exec ident data c) = Inr row)))
       \<and> (\<exists>r. sqlForPartialUpdate data Job_jsToSql = Inr r \<and>
            (let st = (Job_update_text (setCols r) (''$'' @ show_nat (length (values_of r) + 1)),
                       values_of r @ [ident])
             in executed (snd (Job_update exec ident data c)) = executed c @ [st]
              \<and> snd st ! length (values_of r) = ident
              \<and> length (snd st) = length (values_of r) + 1
              \<and> (fst (exec (store c) st) = Inr [] \<longrightarrow>
                   fst (Job_update exec ident data c)
                   = Inl (NotFoundError (''No company: '' @ toString ident)))
              \<and> (\<forall>row rows. fst (exec (store c) st) = Inr (row # rows) \<longrightarrow>
                   fst (Job_update exec ident data c) = Inr row)))"
proof (intro conjI)
  from Company_update_statement_nonempty [OF assms, of ident]
  obtain r where r: "sqlForPartialUpdate data Company_jsToSql = Inr r"
    and st: "Company_update_statement ident data
              = Inr (Company_update_text (setCols r) (''$'' @ show_nat (length (values_of r) + 1)),
                     values_of r @ [ident])"
    by blast
  show "\<exists>r. sqlForPartialUpdate data Company_jsToSql = Inr r \<and>
            (let st = (Company_update_text (setCols r) (''$'' @ show_nat (length (values_of r) + 1)),
                       values_of r @ [ident])
             in executed (snd (Company_update exec ident data c)) = executed c @ [st]
              \<and> snd st ! length (values_of r) = ident
              \<and> length (snd st) = length (values_of r) + 1
              \<and> (fst (exec (store c) st) = Inr [] \<longrightarrow>
                   fst (Company_update exec ident data c)
                   = Inl (NotFoundError (''No company: '' @ toString ident)))
              \<and> (\<forall>row rows. fst (exec (store c) st) = Inr (row # rows) \<longrightarrow>
                   fst (Company_update exec ident data c) = Inr row))"
    using r Company_update_run [OF st, of exec c]
    by (intro exI [of _ r]) (simp add: Let_def, blast)
next
  from Job_update_statement_nonempty [OF assms, of ident]
  obtain r where r: "sqlForPartialUpdate data Job_jsToSql = Inr r"
    and st: "Job_update_statement ident data
              = Inr (Job_update_text (setCols r) (''$'' @ show_nat (length (values_of r) + 1)),
                     values_of r @ [ident])"
    by blast
  show "\<exists>r. sqlForPartialUpdate data Job_jsToSql = Inr r \<and>
            (let st = (Job_update_text (setCols r) (''$'' @ show_nat (length (values_of r) + 1)),
                       values_of r @ [ident])
             in executed (snd (Job_update exec ident data c)) = executed c @ [st]
              \<and> snd st ! length (values_of r) = ident
              \<and> length (snd st) = length (values_of r) + 1
              \<and> (fst (exec (store c) st) = Inr [] \<longrightarrow>
                   fst (Job_update exec ident data c)
                   = Inl (NotFoundError (''No company: '' @ toString ident)))
              \<and> (\<forall>row rows. fst (exec (store c) st) = Inr (row # rows) \<longrightarrow>
                   fst (Job_update exec ident data c) = Inr row))"
    using r Job_update_run [OF st, of exec c]
    by (intro exI [of _ r]) (simp add: Let_def, blast)
qed

theorem update_appends_identifier_witness:
  \<open>fst (Company_update (\<lambda>s st. (Inr [], s)) (JStr ''c1'') [(''numEmployees'', JNum ''7'')]
          \<lparr> store = (), executed = [] \<rparr>)
     = Inl (NotFoundError ''No company: c1'')
   \<and> executed (snd (Job_update (\<lambda>s st. (Inr [[(''title'', JStr ''manager''), (''salary'', JNum ''90000'')]], s))
          (JStr ''manager'') [(''salary'', JNum ''90000'')] \<lparr> store = (), executed = [] \<rparr>))
     = [(Job_update_text ''"salary"=$1'' ''$2'', [JNum ''90000'', JStr ''manager''])]
   \<and> fst (Job_update (\<lambda>s st. (Inr [[(''title'', JStr ''manager''), (''salary'', JNum ''90000'')]], s))
          (JStr ''manager'') [(''salary'', JNum ''90000'')] \<lparr> store = (), executed = [] \<rparr>)
     = Inr [(''title'', JStr ''manager''), (''salary'', JNum ''90000'')]\<close>
proof -
  let ?c = "\<lparr> store = (), executed = [] \<rparr>"
  let ?none = "\<lambda>(s::unit) (st::statement). (Inr [] :: error + row list, s)"
  let ?row = "[(''title'', JStr ''manager''), (''salary'', JNum ''90000'')]"
  let ?one = "\<lambda>(s::unit) (st::statement). (Inr [?row] :: error + row list, s)"
  have h1: "[(''numEmployees'', JNum ''7'')] \<noteq> []" and h2: "[(''salary'', JNum ''90000'')] \<noteq> []"
    by simp_all
  have r2: \<open>sqlForPartialUpdate [(''salary'', JNum ''90000'')] Job_jsToSql
        = Inr \<lparr> setCols = ''"salary"=$1'', values_of = [JNum ''90000''] \<rparr>\<close>
    by code_simp
  have n2: "show_nat (Suc (Suc 0)) = ''2''"
    by (simp add: show_nat.simps [of "Suc (Suc 0)"] digit_char_def)
  from update_appends_identifier [where exec = ?none and c = ?c and ident = "JStr ''c1''", OF h1]
  have a: "fst (Company_update ?none (JStr ''c1'') [(''numEmployees'', JNum ''7'')] ?c)
           = Inl (NotFoundError ''No company: c1'')"
    by (auto simp: Let_def)
  from update_appends_identifier [where exec = ?one and c = ?c and ident = "JStr ''manager''", OF h2]
  have b: \<open>executed (snd (Job_update ?one (JStr ''manager'') [(''salary'', JNum ''90000'')] ?c))
           = [(Job_update_text ''"salary"=$1'' ''$2'', [JNum ''90000'', JStr ''manager''])]
         \<and> fst (Job_update ?one (JStr ''manager'') [(''salary'', JNum ''90000'')] ?c) = Inr ?row\<close>
    by (auto simp: Let_def r2 n2)
  from a b show ?thesis by simp
qed

section \<open>Properties of create\<close>

lemma create_texts:
  \<open>Company_duplicateCheck_text
     = ''SELECT handle\<newline>           FROM companies\<newline>           WHERE handle = $1''\<close>
  \<open>Company_create_text
     = ''INSERT INTO companies\<newline>           (handle, name, description, num_employees, logo_url)\<newline>           VALUES ($1, $2, $3, $4, $5)\<newline>           RETURNING handle, name, description, num_employees AS "numEmployees", logo_url AS "logoUrl"''\<close>
  \<open>Job_create_text
     = ''INSERT INTO jobs\<newline>         (title, salary, equity, company_handle)\<newline>         VALUES\<newline>         ($1, $2, $3, $4)\<newline>         RETURNING title, salary, equity, company_handle AS companyHandle''\<close>
  by code_simp+

lemma Company_create_collision:
  assumes "exec (store c) (Company_duplicateCheck_text, [get_prop data ''handle''])
           = (Inr (row # rows), s1)"
  shows "Company_create exec data c
         = (Inl (BadRequestError (''Duplicate company: '' @ toString (get_prop data ''handle''))),
            \<lparr> store = s1,
              executed = executed c @ [(Company_duplicateCheck_text, [get_prop data ''handle''])] \<rparr>)"
  using assms by (simp add: Company_create_def db_query_def first_row_def Let_def)

lemma Company_create_fresh:
  assumes "exec (store c) (Company_duplicateCheck_text, [get_prop data ''handle'']) = (Inr [], s1)"
    and "exec s1 (Company_create_text,
               [get_prop data ''handle'', get_prop data ''name'', get_prop data ''description'',
                get_prop data ''numEmployees'', get_prop data ''logoUrl'']) = (Inr rows, s2)"
  shows "Company_create exec data c
         = (Inr (first_row rows),
            \<lparr> store = s2,
              executed = executed c @
                [(Company_duplicateCheck_text, [get_prop data ''handle'']),
                 (Company_create_text,
                  [get_prop data ''handle'', get_prop data ''name'', get_prop data ''description'',
                   get_prop data ''numEmployees'', get_prop data ''logoUrl''])] \<rparr>)"
  using assms by (simp add: Company_create_def db_query_def first_row_def Let_def)

lemma Job_create_run:
  assumes "exec (store c) (Job_create_text,
             [get_prop data ''title'', get_prop data ''salary'', get_prop data ''equity'',
              get_prop data ''companyHandle'']) = (res, s')"
  shows "Job_create exec data c
         = (map_sum id first_row res,
            \<lparr> store = s',
              executed = executed c @ [(Job_create_text,
                [get_prop data ''title'', get_prop data ''salary'', get_prop data ''equity'',
                 get_prop data ''companyHandle''])] \<rparr>)"
  using assms by (cases res) (simp_all add: Job_create_def db_query_def)

text \<open>
  C7 (as amended): \<open>Company.create\<close>, whose identifier (the handle) is supplied by the
  caller, first executes the select for a row with that handle. When the select returns a
  row the result is the BadRequest error "Duplicate company" and nothing else has been
  executed; only when it returns no row is the insert executed, and the result is the first
  row that the insert returns, shaped by its \<open>RETURNING\<close> clause to the public fields of a
  company. \<open>Job.create\<close>, whose title is supplied by the caller too, makes no such check: it
  executes the insert alone, whatever the store holds, and its result is the first row that
  the insert returns, or the rejection of the store. The texts of the three statements are
  those given.
\<close>

theorem create_checks_handle_not_title:
  \<open>(let handle = get_prop data ''handle'';
        dup = (Company_duplicateCheck_text, [handle]);
        ins = (Company_create_text,
               [handle, get_prop data ''name'', get_prop data ''description'',
                get_prop data ''numEmployees'', get_prop data ''logoUrl''])
    in (\<forall>row rows s1. exec (store c) dup = (Inr (row # rows), s1) \<longrightarrow>
          Company_create exec data c
          = (Inl (BadRequestError (''Duplicate company: '' @ toString handle)),
             \<lparr> store = s1, executed = executed c @ [dup] \<rparr>))
     \<and> (\<forall>s1 rows s2. exec (store c) dup = (Inr [], s1) \<and> exec s1 ins = (Inr rows, s2) \<longrightarrow>
          Company_create exec data c
          = (Inr (first_row rows), \<lparr> store = s2, executed = executed c @ [dup, ins] \<rparr>)))
   \<and> (let ins = (Job_create_text,
               [get_prop data ''title'', get_prop data ''salary'', get_prop data ''equity'',
                get_prop data ''companyHandle''])
      in \<forall>res s'. exec (store c) ins = (res, s') \<longrightarrow>
           Job_create exec data c
           = (map_sum id first_row res, \<lparr> store = s', executed = executed c @ [ins] \<rparr>))
   \<and> Company_duplicateCheck_text
       = ''SELECT handle\<newline>           FROM companies\<newline>           WHERE handle = $1''
   \<and> Company_create_text
       = ''INSERT INTO companies\<newline>           (handle, name, description, num_employees, logo_url)\<newline>           VALUES ($1, $2, $3, $4, $5)\<newline>           RETURNING handle, name, description, num_employees AS "numEmployees", logo_url AS "logoUrl"''
   \<and> Job_create_text
       = ''INSERT INTO jobs\<newline>         (title, salary, equity, company_handle)\<newline>         VALUES\<newline>         ($1, $2, $3, $4)\<newline>         RETURNING title, salary, equity, company_handle AS companyHandle''\<close>
  unfolding Let_def
  using Company_create_collision [of exec c data] Company_create_fresh [of exec c data]
    Job_create_run [of exec c data] create_texts
  by blast

theorem create_checks_handle_not_title_witness:
  "Company_create (\<lambda>s st. if length (snd st) = 1 then (Inr s, s) else (Inr [[(''handle'', hd (snd st))]], s))
      [(''handle'', JStr ''c1''), (''name'', JStr ''C1'')]
      \<lparr> store = [[(''handle'', JStr ''c1'')]], executed = [] \<rparr>
   = (Inl (BadRequestError ''Duplicate company: c1''),
      \<lparr> store = [[(''handle'', JStr ''c1'')]],
        executed = [(Company_duplicateCheck_text, [JStr ''c1''])] \<rparr>)
   \<and> Company_create (\<lambda>s st. if length (snd st) = 1 then (Inr s, s) else (Inr [[(''handle'', hd (snd st))]], s))
      [(''handle'', JStr ''c1''), (''name'', JStr ''C1'')]
      \<lparr> store = [], executed = [] \<rparr>
   = (Inr (Some [(''handle'', JStr ''c1'')]),
      \<lparr> store = [],
        executed = [(Company_duplicateCheck_text, [JStr ''c1'']),
                    (Company_create_text, [JStr ''c1'', JStr ''C1'', JUndef, JUndef, JUndef])] \<rparr>)
   \<and> Job_create (\<lambda>s st. (Inr [], s)) [(''title'', JStr ''cook'')] \<lparr> store = (), executed = [] \<rparr>
   = (Inr None,
      \<lparr> store = (),
        executed = [(Job_create_text, [JStr ''cook'', JUndef, JUndef, JUndef])] \<rparr>)"
proof -
  let ?e = "\<lambda>(s::row list) (st::statement).
              if length (snd st) = 1 then (Inr s :: error + row list, s)
              else (Inr [[(''handle'', hd (snd st))]], s)"
  let ?d = "[(''handle'', JStr ''c1''), (''name'', JStr ''C1'')]"
  let ?n = "\<lambda>(s::unit) (st::statement). (Inr [] :: error + row list, s)"
  note T1 = create_checks_handle_not_title
      [where exec = ?e and data = ?d and c = "\<lparr> store = [[(''handle'', JStr ''c1'')]], executed = [] \<rparr>",
       THEN conjunct1, unfolded Let_def, THEN conjunct1]
  note T2 = create_checks_handle_not_title
      [where exec = ?e and data = ?d and c = "\<lparr> store = [], executed = [] \<rparr>",
       THEN conjunct1, unfolded Let_def, THEN conjunct2]
  note T3 = create_checks_handle_not_title
      [where exec = ?n and data = "[(''title'', JStr ''cook'')]"
         and c = "\<lparr> store = (), executed = [] \<rparr>",
       THEN conjunct2, THEN conjunct1, unfolded Let_def]
  have a: "Company_create ?e ?d \<lparr> store = [[(''handle'', JStr ''c1'')]], executed = [] \<rparr>
   = (Inl (BadRequestError ''Duplicate company: c1''),
      \<lparr> store = [[(''handle'', JStr ''c1'')]],
        executed = [(Company_duplicateCheck_text, [JStr ''c1''])] \<rparr>)"
    using T1 by (simp add: get_prop_def)
  have b: "Company_create ?e ?d \<lparr> store = [], executed = [] \<rparr>
   = (Inr (Some [(''handle'', JStr ''c1'')]),
      \<lparr> store = [],
        executed = [(Company_duplicateCheck_text, [JStr ''c1'']),
                    (Company_create_text, [JStr ''c1'', JStr ''C1'', JUndef, JUndef, JUndef])] \<rparr>)"
    using T2 by (simp add: get_prop_def first_row_def)
  have c: "Job_create ?n [(''title'', JStr ''cook'')] \<lparr> store = (), executed = [] \<rparr>
   = (Inr None,
      \<lparr> store = (),
        executed = [(Job_create_text, [JStr ''cook'', JUndef, JUndef, JUndef])] \<rparr>)"
    using T3 by (simp add: get_prop_def first_row_def)
  from a b c show ?thesis by simp
qed

text \<open>
  With a job of the same title already in the store, \<open>Job.create\<close> executes the insert and
  returns its row; with a store that takes every insert there are then two jobs of that
  title.
\<close>

theorem Job_create_duplicate_title_counterexample:
  "Job_create (\<lambda>s st. (Inr [[(''title'', hd (snd st))]], s @ [[(''title'', hd (snd st))]]))
      [(''title'', JStr ''manager''), (''salary'', JNum ''1''), (''equity'', JNum ''0''),
       (''companyHandle'', JStr ''c1'')]
      \<lparr> store = [[(''title'', JStr ''manager'')]], executed = [] \<rparr>
   = (Inr (Some [(''title'', JStr ''manager'')]),
      \<lparr> store = [[(''title'', JStr ''manager'')], [(''title'', JStr ''manager'')]],
        executed = [(Job_create_text, [JStr ''manager'', JNum ''1'', JNum ''0'', JStr ''c1''])] \<rparr>)"
  by (simp add: Job_create_def db_query_def first_row_def get_prop_def)

end
